theory Spec2Isabelle
  imports Main "HOL-Library.Word"
begin

section \<open>clibind: struct tags to command-line flags and back\<close>

text \<open>
  A shallow embedding of the Go package \<^verbatim>\<open>clibind\<close> (\<^verbatim>\<open>flags.go\<close>, \<^verbatim>\<open>bind.go\<close> and the
  helper file). Types and struct fields are what \<^verbatim>\<open>reflect\<close> shows of them, the command
  is the record of its typed accessors, strings are byte strings, an error return and a
  panic are different outcomes.
\<close>

subsection \<open>Types as \<^verbatim>\<open>reflect\<close> sees them\<close>

datatype kind =
  KInvalid | KBool
  | KInt | KInt8 | KInt16 | KInt32 | KInt64
  | KUint | KUint8 | KUint16 | KUint32 | KUint64 | KUintptr
  | KFloat32 | KFloat64 | KComplex64 | KComplex128
  | KArray | KChan | KFunc | KInterface | KMap | KPointer | KSlice | KString | KStruct
  | KUnsafePointer

text \<open>
  A struct field as \<^verbatim>\<open>reflect.StructField\<close> gives it, without its type: \<open>PkgPath\<close> is empty
  exactly for an exported field; \<open>Tag\<close> lists the key/value pairs of the struct tag, and
  \<^verbatim>\<open>Tag.Get\<close> returns the first value of a key, or the empty string.
\<close>

record sfield =
  Name :: string
  PkgPath :: string
  Anonymous :: bool
  Tag :: "(string \<times> string) list"

text \<open>
  The types the package can tell apart. \<open>TInt\<close>, \<open>TUint\<close>, \<open>TBool\<close>, \<open>TFloat32\<close>, \<open>TFloat64\<close>
  and \<open>TString\<close> stand for every type of that kind other than the three library types,
  which are compared by identity: \<^verbatim>\<open>time.Duration\<close> (kind Int64), \<^verbatim>\<open>time.Time\<close> (kind
  Struct, its three fields unexported) and \<^verbatim>\<open>uuid.UUID\<close> (kind Array). \<open>TOther\<close> is a type of
  any kind the package has no case for.
\<close>

datatype intKind = IInt | IInt8 | IInt16 | IInt32 | IInt64

datatype uintKind = UUint | UUint8 | UUint16 | UUint32 | UUint64 | UUintptr

datatype otherKind =
  OComplex64 | OComplex128 | OArray | OChan | OFunc | OInterface | OMap | OUnsafePointer

datatype gtype =
  TBool
  | TInt intKind
  | TUint uintKind
  | TFloat32
  | TFloat64
  | TString
  | TDuration
  | TTime
  | TUUID
  | TSlice gtype
  | TPointer gtype
  | TStruct "(sfield \<times> gtype) list"
  | TOther otherKind

fun intKindOf :: "intKind \<Rightarrow> kind" where
  "intKindOf IInt = KInt"
| "intKindOf IInt8 = KInt8"
| "intKindOf IInt16 = KInt16"
| "intKindOf IInt32 = KInt32"
| "intKindOf IInt64 = KInt64"

fun uintKindOf :: "uintKind \<Rightarrow> kind" where
  "uintKindOf UUint = KUint"
| "uintKindOf UUint8 = KUint8"
| "uintKindOf UUint16 = KUint16"
| "uintKindOf UUint32 = KUint32"
| "uintKindOf UUint64 = KUint64"
| "uintKindOf UUintptr = KUintptr"

fun otherKindOf :: "otherKind \<Rightarrow> kind" where
  "otherKindOf OComplex64 = KComplex64"
| "otherKindOf OComplex128 = KComplex128"
| "otherKindOf OArray = KArray"
| "otherKindOf OChan = KChan"
| "otherKindOf OFunc = KFunc"
| "otherKindOf OInterface = KInterface"
| "otherKindOf OMap = KMap"
| "otherKindOf OUnsafePointer = KUnsafePointer"

fun Kind :: "gtype \<Rightarrow> kind" where
  "Kind TBool = KBool"
| "Kind (TInt k) = intKindOf k"
| "Kind (TUint k) = uintKindOf k"
| "Kind TFloat32 = KFloat32"
| "Kind TFloat64 = KFloat64"
| "Kind TString = KString"
| "Kind TDuration = KInt64"
| "Kind TTime = KStruct"
| "Kind TUUID = KArray"
| "Kind (TSlice _) = KSlice"
| "Kind (TPointer _) = KPointer"
| "Kind (TStruct _) = KStruct"
| "Kind (TOther k) = otherKindOf k"

definition tagCLI :: string where "tagCLI = ''cli''"
definition tagCLIDefault :: string where "tagCLIDefault = ''cliDefault''"
definition tagCLIUsage :: string where "tagCLIUsage = ''cliUsage''"
definition tagCLITimeFmt :: string where "tagCLITimeFmt = ''cliTimeLayout''"
definition tagCLIPrefix :: string where "tagCLIPrefix = ''cliPrefix''"
definition defaultTimeFmt :: string where "defaultTimeFmt = ''2006-01-02T15:04:05Z07:00''"

definition Get :: "(string \<times> string) list \<Rightarrow> string \<Rightarrow> string" where
  "Get tag key = (case map_of tag key of None \<Rightarrow> [] | Some v \<Rightarrow> v)"

subsection \<open>The helper file\<close>

fun unreferenceType :: "gtype \<Rightarrow> gtype" where
  "unreferenceType (TPointer t) = unreferenceType t"
| "unreferenceType t = t"

definition isStructLike :: "gtype \<Rightarrow> bool" where
  "isStructLike t = (let u = unreferenceType t in Kind u = KStruct \<and> u \<noteq> TTime)"

definition isAnyInt :: "kind \<Rightarrow> bool" where
  "isAnyInt k = (k = KInt \<or> k = KInt8 \<or> k = KInt16 \<or> k = KInt32 \<or> k = KInt64)"

definition isAnyUint :: "kind \<Rightarrow> bool" where
  "isAnyUint k =
     (k = KUint \<or> k = KUint8 \<or> k = KUint16 \<or> k = KUint32 \<or> k = KUint64 \<or> k = KUintptr)"

text \<open>
  \<^verbatim>\<open>strings.TrimSpace\<close>, \<^verbatim>\<open>strings.Split(s, ",")\<close> and \<^verbatim>\<open>strings.ToLower\<close> on byte strings:
  the white space is the ASCII white space, and only ASCII letters are lowered (adding
  \<^verbatim>\<open>'a' - 'A'\<close> to an upper-case letter sets its bit 5).
\<close>

definition isSpace :: "char \<Rightarrow> bool" where
  "isSpace c = (c = CHR '' '' \<or> (9::nat) \<le> of_char c \<and> of_char c \<le> (13::nat))"

definition TrimSpace :: "string \<Rightarrow> string" where
  "TrimSpace s = rev (dropWhile isSpace (rev (dropWhile isSpace s)))"

fun Split :: "string \<Rightarrow> string list" where
  "Split [] = [[]]"
| "Split (c # cs) =
     (if c = CHR '','' then [] # Split cs
      else (case Split cs of [] \<Rightarrow> [[c]] | p # ps \<Rightarrow> (c # p) # ps))"

definition lowerChar :: "char \<Rightarrow> char" where
  "lowerChar c =
     (if (65::nat) \<le> of_char c \<and> of_char c \<le> (90::nat) then
        (case c of Char b0 b1 b2 b3 b4 b5 b6 b7 \<Rightarrow> Char b0 b1 b2 b3 b4 True b6 b7)
      else c)"

definition ToLower :: "string \<Rightarrow> string" where
  "ToLower s = map lowerChar s"

definition splitCSV :: "string \<Rightarrow> string list" where
  "splitCSV s = (if s = [] then [] else map TrimSpace (Split s))"

text \<open>
  The loop of \<^verbatim>\<open>parseNamesWithOptions\<close> over \<^verbatim>\<open>parts[1:]\<close>: the token \<^verbatim>\<open>omitempty\<close> sets the
  option, every other token is an alias.
\<close>

fun namesLoop :: "string list \<Rightarrow> string list \<times> bool" where
  "namesLoop [] = ([], False)"
| "namesLoop (p # ps) =
     (let (aliases, omitEmpty) = namesLoop ps in
      if TrimSpace p = ''omitempty'' then (aliases, True)
      else (TrimSpace p # aliases, omitEmpty))"

definition parseNamesWithOptions :: "string \<Rightarrow> string \<times> string list \<times> bool" where
  "parseNamesWithOptions tag0 =
     (let tag = TrimSpace tag0 in
      if tag = [] then ([], [], False)
      else (case splitCSV tag of
              [] \<Rightarrow> ([], [], False)
            | p0 # ps \<Rightarrow>
                if p0 = [] then ([], [], False)
                else (let (aliases, omitEmpty) = namesLoop ps in (p0, aliases, omitEmpty))))"

subsection \<open>\<^verbatim>\<open>strconv\<close>\<close>

text \<open>
  What a \<^verbatim>\<open>strconv\<close> parser returns: the value with a nil error, the zero value with
  \<^verbatim>\<open>ErrSyntax\<close>, or the nearest bound with \<^verbatim>\<open>ErrRange\<close>. \<open>valueOf\<close> is the first result
  of the call, \<open>failed\<close> says that the second is not nil.
\<close>

datatype 'a parsed = Parsed 'a | ErrSyntax | ErrRange 'a

fun valueOf :: "('a::zero) parsed \<Rightarrow> 'a" where
  "valueOf (Parsed v) = v"
| "valueOf ErrSyntax = 0"
| "valueOf (ErrRange v) = v"

fun failed :: "'a parsed \<Rightarrow> bool" where
  "failed (Parsed _) = False"
| "failed _ = True"

definition ParseBool :: "string \<Rightarrow> bool parsed" where
  "ParseBool s =
     (if s \<in> set [''1'', ''t'', ''T'', ''true'', ''TRUE'', ''True''] then Parsed True
      else if s \<in> set [''0'', ''f'', ''F'', ''false'', ''FALSE'', ''False''] then Parsed False
      else ErrSyntax)"

definition boolOf :: "bool parsed \<Rightarrow> bool" where
  "boolOf r = (case r of Parsed b \<Rightarrow> b | _ \<Rightarrow> False)"

definition maxUint64 :: nat where "maxUint64 = 2 ^ 64 - 1"

definition isDigit :: "char \<Rightarrow> bool" where
  "isDigit c = ((48::nat) \<le> of_char c \<and> of_char c \<le> (57::nat))"

definition digitVal :: "char \<Rightarrow> nat" where
  "digitVal c = of_char c - 48"

text \<open>
  \<^verbatim>\<open>strconv.ParseUint(s, 10, 64)\<close>: the digits are read from the left; a byte that is not a
  decimal digit is a syntax error, and the first digit that takes the number beyond 64 bits
  is a range error, the bytes after it unread.
\<close>

fun parseUintLoop :: "nat \<Rightarrow> string \<Rightarrow> nat parsed" where
  "parseUintLoop n [] = Parsed n"
| "parseUintLoop n (c # cs) =
     (if \<not> isDigit c then ErrSyntax
      else if n \<ge> maxUint64 div 10 + 1 then ErrRange maxUint64
      else if n * 10 + digitVal c > maxUint64 then ErrRange maxUint64
      else parseUintLoop (n * 10 + digitVal c) cs)"

definition ParseUintNat :: "string \<Rightarrow> nat parsed" where
  "ParseUintNat s = (if s = [] then ErrSyntax else parseUintLoop 0 s)"

definition ParseUint :: "string \<Rightarrow> 64 word parsed" where
  "ParseUint s =
     (case ParseUintNat s of
        Parsed n \<Rightarrow> Parsed (of_nat n)
      | ErrSyntax \<Rightarrow> ErrSyntax
      | ErrRange n \<Rightarrow> ErrRange (of_nat n))"

text \<open>\<^verbatim>\<open>strconv.ParseInt(s, 10, 64)\<close>: an optional sign, then \<^verbatim>\<open>ParseUint\<close>.\<close>

definition ParseInt :: "string \<Rightarrow> 64 word parsed" where
  "ParseInt s0 =
     (if s0 = [] then ErrSyntax
      else
        let neg = (hd s0 = CHR ''-'');
            s = (if hd s0 = CHR ''+'' \<or> hd s0 = CHR ''-'' then tl s0 else s0)
        in (case ParseUintNat s of
              ErrSyntax \<Rightarrow> ErrSyntax
            | r \<Rightarrow>
                let un = (case r of Parsed n \<Rightarrow> n | ErrRange n \<Rightarrow> n | ErrSyntax \<Rightarrow> 0) in
                if \<not> neg \<and> un \<ge> 2 ^ 63 then ErrRange (word_of_int (2 ^ 63 - 1))
                else if neg \<and> un > 2 ^ 63 then ErrRange (word_of_int (- (2 ^ 63)))
                else Parsed (if neg then word_of_int (- int un) else word_of_int (int un))))"

subsection \<open>The parsers and conversions of other packages\<close>

type_synonym int64 = "64 word"
type_synonym uint64 = "64 word"
type_synonym float64 = "64 word"
type_synonym duration = int
type_synonym timeval = int
type_synonym uuid = "128 word"

text \<open>
  The package calls four parsers that are taken as they come: \<^verbatim>\<open>strconv.ParseFloat(s, 64)\<close>,
  \<^verbatim>\<open>time.ParseDuration\<close>, \<^verbatim>\<open>time.Parse(layout, s)\<close> and \<^verbatim>\<open>uuid.FromString\<close>; the last three
  return \<open>None\<close> for an error. A \<open>float64\<close> is its 64 bits, a duration its nanoseconds, a
  time its distance from the zero time, a UUID its 128 bits. \<open>toFloat32\<close> is the
  conversion \<^verbatim>\<open>float64(float32(x))\<close> that storing into a \<^verbatim>\<open>float32\<close> applies.
\<close>

record lib =
  ParseFloat :: "string \<Rightarrow> float64 parsed"
  ParseDuration :: "string \<Rightarrow> duration option"
  timeParse :: "string \<Rightarrow> string \<Rightarrow> timeval option"
  FromString :: "string \<Rightarrow> uuid option"
  toFloat32 :: "float64 \<Rightarrow> float64"

subsection \<open>Flags\<close>

text \<open>
  A \<^verbatim>\<open>cli.Flag\<close> of one of the six kinds the generator emits. The kind is the constructor
  of \<open>Value\<close>, which holds the flag's default; \<open>FlagName\<close> is the field \<^verbatim>\<open>Name\<close> of the flag.
\<close>

datatype flagvalue =
  StringValue string
  | BoolValue bool
  | Int64Value int64
  | Uint64Value uint64
  | Float64Value float64
  | StringSliceValue "string list"

record flag =
  FlagName :: string
  Aliases :: "string list"
  Usage :: string
  Value :: flagvalue
  DefaultText :: string
  Required :: bool

text \<open>The name of a field's flag without the prefix, for the generator and the binder alike.\<close>

definition ownName :: "sfield \<Rightarrow> string" where
  "ownName sf =
     (let (name, aliases, omitEmpty) = parseNamesWithOptions (Get (Tag sf) tagCLI) in
      if name = [] then ToLower (Name sf) else name)"

definition omitEmptyOf :: "sfield \<Rightarrow> bool" where
  "omitEmptyOf sf = (let (name, aliases, omitEmpty) = parseNamesWithOptions (Get (Tag sf) tagCLI) in omitEmpty)"

definition aliasesOf :: "sfield \<Rightarrow> string list" where
  "aliasesOf sf = (let (name, aliases, omitEmpty) = parseNamesWithOptions (Get (Tag sf) tagCLI) in aliases)"

text \<open>
  The \<^verbatim>\<open>switch\<close> of \<^verbatim>\<open>genFlagsForStruct\<close>: what one field that is not recursed into appends
  to the output. \<open>ft\<close> is the field's type as declared, \<open>kind\<close> the kind behind its
  pointers.
\<close>

definition genLeaf :: "lib \<Rightarrow> sfield \<Rightarrow> gtype \<Rightarrow> string \<Rightarrow> flag list" where
  "genLeaf L sf ft inheritedPrefix =
     (let name = inheritedPrefix @ ownName sf;
          aliases = map (\<lambda>a. if length a > 1 then inheritedPrefix @ a else a) (aliasesOf sf);
          usage = Get (Tag sf) tagCLIUsage;
          def = Get (Tag sf) tagCLIDefault;
          kind = Kind (unreferenceType ft);
          required = (\<not> omitEmptyOf sf \<and> def = []);
          strFlag = \<lparr>FlagName = name, Aliases = aliases, Usage = usage,
                     Value = StringValue def, DefaultText = def, Required = required\<rparr>
      in
      if ft = TDuration then [strFlag]
      else if kind = KBool then
        [\<lparr>FlagName = name, Aliases = aliases, Usage = usage,
          Value = BoolValue (boolOf (ParseBool def)), DefaultText = [], Required = required\<rparr>]
      else if isAnyInt kind then
        [\<lparr>FlagName = name, Aliases = aliases, Usage = usage,
          Value = Int64Value (valueOf (ParseInt def)), DefaultText = def, Required = required\<rparr>]
      else if isAnyUint kind then
        [\<lparr>FlagName = name, Aliases = aliases, Usage = usage,
          Value = Uint64Value (valueOf (ParseUint def)), DefaultText = def, Required = required\<rparr>]
      else if kind = KFloat32 \<or> kind = KFloat64 then
        [\<lparr>FlagName = name, Aliases = aliases, Usage = usage,
          Value = Float64Value (valueOf (ParseFloat L def)), DefaultText = def,
          Required = required\<rparr>]
      else if ft = TTime then [strFlag]
      else if ft = TUUID then [strFlag]
      else if kind = KString then [strFlag]
      else if kind = KSlice then
        [\<lparr>FlagName = name, Aliases = aliases, Usage = usage,
          Value = StringSliceValue (splitCSV def), DefaultText = def, Required = required\<rparr>]
      else [])"

text \<open>
  \<^verbatim>\<open>genFlagsForStruct\<close> returns what it appends to \<open>out\<close>. \<open>genFields\<close> is its loop over the
  fields of \<open>rt\<close>; of \<^verbatim>\<open>time.Time\<close> every field is unexported and skipped.
\<close>

function (sequential) genFlagsForStruct :: "lib \<Rightarrow> gtype \<Rightarrow> string \<Rightarrow> flag list"
  and genFields :: "lib \<Rightarrow> (sfield \<times> gtype) list \<Rightarrow> string \<Rightarrow> flag list" where
  "genFlagsForStruct L (TStruct fs) inheritedPrefix = genFields L fs inheritedPrefix"
| "genFlagsForStruct L rt inheritedPrefix = []"
| "genFields L [] inheritedPrefix = []"
| "genFields L ((sf, ft) # fs) inheritedPrefix =
     (if PkgPath sf \<noteq> [] then genFields L fs inheritedPrefix
      else if isStructLike ft \<and> Get (Tag sf) tagCLIPrefix \<noteq> [] then
        genFlagsForStruct L (unreferenceType ft) (inheritedPrefix @ Get (Tag sf) tagCLIPrefix)
        @ genFields L fs inheritedPrefix
      else if fst (parseNamesWithOptions (Get (Tag sf) tagCLI)) = []
              \<and> Anonymous sf \<and> isStructLike ft then
        genFlagsForStruct L (unreferenceType ft) inheritedPrefix @ genFields L fs inheritedPrefix
      else genLeaf L sf ft inheritedPrefix @ genFields L fs inheritedPrefix)"
  by pat_completeness auto
termination
proof -
  have le: "size (unreferenceType t) \<le> size t" for t
    by (induction t rule: unreferenceType.induct) auto
  show ?thesis
  proof (relation "measure (\<lambda>x. case x of
                      Inl (L, t, p) \<Rightarrow> 2 * size t
                    | Inr (L, fs, p) \<Rightarrow> 2 * size_list (size_prod (\<lambda>_. 0) size) fs + 1)",
         goal_cases)
    case (4 L sf ft fs inheritedPrefix)
    show ?case using le [of ft] by simp
  next
    case (6 L sf ft fs inheritedPrefix)
    show ?case using le [of ft] by simp
  qed simp_all
qed

text \<open>\<^verbatim>\<open>FlagsFromStruct(v)\<close>, given the type of \<open>v\<close>.\<close>

definition FlagsFromStruct :: "lib \<Rightarrow> gtype \<Rightarrow> flag list" where
  "FlagsFromStruct L vt =
     (let rt = unreferenceType vt in
      if Kind rt \<noteq> KStruct then [] else genFlagsForStruct L rt [])"

subsection \<open>Values, the command and the outcomes of a call\<close>

text \<open>
  A value of a type above. \<open>VNil\<close> is the nil pointer and the nil slice, \<open>VPtr v\<close> a pointer to
  a variable that holds \<open>v\<close>, \<open>VStruct\<close> lists the fields in the order of their declaration,
  \<open>VOther\<close> is the zero value of a type the package has no case for. Integers are 64 bits
  wide where the platform decides (\<^verbatim>\<open>int\<close>, \<^verbatim>\<open>uint\<close>, \<^verbatim>\<open>uintptr\<close>).
\<close>

datatype gval =
  VBool bool
  | VInt int
  | VUint nat
  | VFloat float64
  | VString string
  | VDuration duration
  | VTime timeval
  | VUUID uuid
  | VNil
  | VPtr gval
  | VSlice "gval list"
  | VStruct "gval list"
  | VOther

fun zeroValue :: "gtype \<Rightarrow> gval" where
  "zeroValue TBool = VBool False"
| "zeroValue (TInt k) = VInt 0"
| "zeroValue (TUint k) = VUint 0"
| "zeroValue TFloat32 = VFloat 0"
| "zeroValue TFloat64 = VFloat 0"
| "zeroValue TString = VString []"
| "zeroValue TDuration = VDuration 0"
| "zeroValue TTime = VTime 0"
| "zeroValue TUUID = VUUID 0"
| "zeroValue (TSlice t) = VNil"
| "zeroValue (TPointer t) = VNil"
| "zeroValue (TStruct fs) = VStruct (map (\<lambda>f. zeroValue (snd f)) fs)"
| "zeroValue (TOther k) = VOther"

text \<open>
  The \<^verbatim>\<open>*cli.Command\<close> after the arguments are parsed, as far as the package uses it: the
  typed accessors by flag name and the query whether a flag was set.
\<close>

record command =
  IsSet :: "string \<Rightarrow> bool"
  String :: "string \<Rightarrow> string"
  Bool :: "string \<Rightarrow> bool"
  Int64 :: "string \<Rightarrow> int64"
  Uint64 :: "string \<Rightarrow> uint64"
  Float64 :: "string \<Rightarrow> float64"
  StringSlice :: "string \<Rightarrow> string list"

text \<open>The errors the package builds, by their format strings, and the two ways a call fails.\<close>

datatype err =
  DestNotPointer
  | EmbeddedHasTag string
  | BindSubstruct string err
  | SetFieldValue string err
  | ParseDurationErr
  | TimeParseErr
  | ParseUUIDErr
  | ParseIntErr
  | ParseUintErr
  | ParseFloatErr
  | MatrixType string

datatype fault = Error err | Panic

subsection \<open>Writing a field through \<^verbatim>\<open>reflect\<close>\<close>

text \<open>
  \<^verbatim>\<open>unreferenceValue\<close> on a value \<open>v\<close> of type \<open>t\<close>: the type and the content of the value it
  returns. Behind a nil pointer it makes a new zero value, which no field refers to.
\<close>

fun unreferenceValue :: "gtype \<Rightarrow> gval \<Rightarrow> gtype \<times> gval" where
  "unreferenceValue t v =
     (case t of
        TPointer e \<Rightarrow> (case v of VPtr w \<Rightarrow> unreferenceValue e w | _ \<Rightarrow> (e, zeroValue e))
      | _ \<Rightarrow> (t, v))"

definition intBits :: "kind \<Rightarrow> nat" where
  "intBits k =
     (if k = KInt8 \<or> k = KUint8 then 8
      else if k = KInt16 \<or> k = KUint16 then 16
      else if k = KInt32 \<or> k = KUint32 then 32
      else 64)"

text \<open>
  \<^verbatim>\<open>reflect.Value.SetInt\<close>, \<^verbatim>\<open>SetUint\<close> and \<^verbatim>\<open>SetFloat\<close> on a value of type \<open>t\<close> convert to the
  width of \<open>t\<close>.
\<close>

definition SetInt :: "gtype \<Rightarrow> int64 \<Rightarrow> gval" where
  "SetInt t v =
     (let x = signed_take_bit (intBits (Kind t) - 1) (sint v) in
      if t = TDuration then VDuration x else VInt x)"

definition SetUint :: "gtype \<Rightarrow> uint64 \<Rightarrow> gval" where
  "SetUint t v = VUint (take_bit (intBits (Kind t)) (unat v))"

definition SetFloat :: "lib \<Rightarrow> gtype \<Rightarrow> float64 \<Rightarrow> gval" where
  "SetFloat L t x = VFloat (if Kind t = KFloat32 then toFloat32 L x else x)"

definition castAndSetInt :: "gtype \<Rightarrow> gval \<Rightarrow> int64 \<Rightarrow> gval" where
  "castAndSetInt ft field v =
     (if isAnyInt (Kind ft) then SetInt ft v
      else (case (ft, field) of
              (TPointer e, VPtr old) \<Rightarrow> if isAnyInt (Kind e) then VPtr (SetInt e v) else field
            | _ \<Rightarrow> field))"

definition castAndSetUint :: "gtype \<Rightarrow> gval \<Rightarrow> uint64 \<Rightarrow> gval" where
  "castAndSetUint ft field v =
     (if isAnyUint (Kind ft) then SetUint ft v
      else (case (ft, field) of
              (TPointer e, VPtr old) \<Rightarrow> if isAnyUint (Kind e) then VPtr (SetUint e v) else field
            | _ \<Rightarrow> field))"

subsection \<open>\<^verbatim>\<open>setSliceField\<close>\<close>

definition layoutOf :: "sfield \<Rightarrow> string" where
  "layoutOf sf =
     (if Get (Tag sf) tagCLITimeFmt = [] then defaultTimeFmt else Get (Tag sf) tagCLITimeFmt)"

text \<open>
  One round of the loop over \<open>raw\<close>, for the element type \<open>t\<close>: an error, or the value to
  append; \<open>None\<close> is a \<^verbatim>\<open>continue\<close> that appends nothing.
\<close>

definition sliceElem :: "lib \<Rightarrow> sfield \<Rightarrow> gtype \<Rightarrow> string \<Rightarrow> fault + gval option" where
  "sliceElem L sf t s =
     (if t = TDuration then
        (if s = [] then Inr None
         else (case ParseDuration L s of
                 None \<Rightarrow> Inl (Error ParseDurationErr)
               | Some d \<Rightarrow> Inr (Some (VDuration d))))
      else if Kind t = KBool then Inr (Some (VBool (boolOf (ParseBool s))))
      else if isAnyInt (Kind t) then
        (case ParseInt s of
           Parsed i \<Rightarrow> Inr (Some (castAndSetInt t (zeroValue t) i))
         | _ \<Rightarrow> Inl (Error ParseIntErr))
      else if isAnyUint (Kind t) then
        (case ParseUint s of
           Parsed i \<Rightarrow> Inr (Some (castAndSetUint t (zeroValue t) i))
         | _ \<Rightarrow> Inl (Error ParseUintErr))
      else if Kind t = KFloat32 \<or> Kind t = KFloat64 then
        (case ParseFloat L s of
           Parsed x \<Rightarrow> Inr (Some (SetFloat L t x))
         | _ \<Rightarrow> Inl (Error ParseFloatErr))
      else if t = TTime then
        (if s = [] then Inr None
         else (case timeParse L (layoutOf sf) s of
                 None \<Rightarrow> Inl (Error TimeParseErr)
               | Some tm \<Rightarrow> Inr (Some (VTime tm))))
      else if t = TUUID then
        (if s = [] then Inr None
         else (case FromString L s of
                 None \<Rightarrow> Inl (Error ParseUUIDErr)
               | Some u \<Rightarrow> Inr (Some (VUUID u))))
      else if Kind t = KString then Inr (Some (VString s))
      else if Kind t = KSlice then Inl (Error (MatrixType (Name sf)))
      else Inr (Some (zeroValue t)))"

fun sliceLoop :: "lib \<Rightarrow> sfield \<Rightarrow> gtype \<Rightarrow> string list \<Rightarrow> fault + gval list" where
  "sliceLoop L sf t [] = Inr []"
| "sliceLoop L sf t (s # raw) =
     (case sliceElem L sf t s of
        Inl f \<Rightarrow> Inl f
      | Inr r \<Rightarrow>
          (case sliceLoop L sf t raw of
             Inl f \<Rightarrow> Inl f
           | Inr out \<Rightarrow> Inr (case r of None \<Rightarrow> out | Some v \<Rightarrow> v # out)))"

text \<open>\<^verbatim>\<open>Type.Elem\<close> of the declared type of a field whose kind behind pointers is Slice.\<close>

fun Elem :: "gtype \<Rightarrow> gtype option" where
  "Elem (TSlice e) = Some e"
| "Elem (TPointer e) = Some e"
| "Elem t = None"

text \<open>
  \<open>sft\<close> is \<^verbatim>\<open>sf.Type\<close>, \<open>ft\<close> and \<open>field\<close> the type and content of the argument \<^verbatim>\<open>field\<close>; the
  result is its new content. The last \<^verbatim>\<open>field.Set(out)\<close> panics unless \<open>out\<close>, a slice of
  \<open>t\<close>, is assignable to \<open>field\<close>.
\<close>

definition setSliceField ::
    "lib \<Rightarrow> command \<Rightarrow> string \<Rightarrow> sfield \<Rightarrow> gtype \<Rightarrow> gtype \<Rightarrow> gval \<Rightarrow> fault + gval" where
  "setSliceField L ctx name sf sft ft field =
     (let raw = StringSlice ctx name in
      if raw = [] then Inr field
      else (case Elem sft of
              None \<Rightarrow> Inl Panic
            | Some t \<Rightarrow>
                (case sliceLoop L sf t raw of
                   Inl f \<Rightarrow> Inl f
                 | Inr out \<Rightarrow> if ft = TSlice t then Inr (VSlice out) else Inl Panic)))"

subsection \<open>\<^verbatim>\<open>setFieldValue\<close>\<close>

text \<open>\<^verbatim>\<open>field.Set(reflect.ValueOf(x))\<close> for \<open>x\<close> of type \<open>t\<close>: a panic unless the types agree.\<close>

definition SetValue :: "gtype \<Rightarrow> gtype \<Rightarrow> gval \<Rightarrow> fault + gval" where
  "SetValue ft t x = (if ft = t then Inr x else Inl Panic)"

definition setFieldValue ::
    "lib \<Rightarrow> command \<Rightarrow> string \<Rightarrow> sfield \<Rightarrow> gtype \<Rightarrow> gtype \<Rightarrow> gval \<Rightarrow> fault + gval" where
  "setFieldValue L ctx name sf sft ft field =
     (let t = unreferenceType sft in
      if t = TDuration then
        (let s = String ctx name in
         if s = [] then SetValue ft t (VDuration 0)
         else (case ParseDuration L s of
                 None \<Rightarrow> Inl (Error ParseDurationErr)
               | Some d \<Rightarrow> SetValue ft t (VDuration d)))
      else if Kind t = KBool then
        (if Kind ft = KBool then Inr (VBool (Bool ctx name)) else Inl Panic)
      else if isAnyInt (Kind t) then Inr (castAndSetInt ft field (Int64 ctx name))
      else if isAnyUint (Kind t) then Inr (castAndSetUint ft field (Uint64 ctx name))
      else if Kind t = KFloat32 \<or> Kind t = KFloat64 then
        (if Kind ft = KFloat32 \<or> Kind ft = KFloat64 then Inr (SetFloat L ft (Float64 ctx name))
         else Inl Panic)
      else if t = TTime then
        (let s = String ctx name in
         if s = [] then SetValue ft t (VTime 0)
         else (case timeParse L (layoutOf sf) s of
                 None \<Rightarrow> Inl (Error TimeParseErr)
               | Some tm \<Rightarrow> SetValue ft t (VTime tm)))
      else if t = TUUID then
        (let s = String ctx name in
         if s = [] then SetValue ft t (VUUID 0)
         else (case FromString L s of
                 None \<Rightarrow> Inl (Error ParseUUIDErr)
               | Some u \<Rightarrow> SetValue ft t (VUUID u)))
      else if Kind t = KString then
        (if Kind ft = KString then Inr (VString (String ctx name)) else Inl Panic)
      else if Kind t = KSlice then setSliceField L ctx name sf sft ft field
      else Inr field)"

subsection \<open>\<^verbatim>\<open>bindStruct\<close> and \<^verbatim>\<open>Bind\<close>\<close>

text \<open>
  The rest of the loop after field \<open>i\<close>: \<open>x\<close> is what field \<open>i\<close> of the new value \<open>v\<close> holds,
  \<open>d\<close> whether this round set \<open>defined\<close>.
\<close>

fun onward :: "gval \<Rightarrow> bool \<Rightarrow> fault + gval list \<times> bool \<Rightarrow> fault + gval list \<times> bool" where
  "onward x d (Inl f) = Inl f"
| "onward x d (Inr (vs, defined)) = Inr (x # vs, d \<or> defined)"

text \<open>
  \<^verbatim>\<open>bindStruct\<close> returns an error, a panic, nil (\<open>None\<close>) or the new value. \<open>bindFields\<close> is its
  loop: the fields of the new value \<open>v\<close>, which start at their zero values, and \<open>defined\<close>.
  A skipped field keeps its zero value. A field of pointer type is nil in \<open>v\<close>:
  \<^verbatim>\<open>unreferenceValue\<close> hands \<^verbatim>\<open>setFieldValue\<close> a new value, and the field stays nil;
  \<^verbatim>\<open>fv.Set(*subv)\<close> on it panics, \<open>subv\<close> being a struct.
\<close>

function (sequential) bindStruct ::
    "lib \<Rightarrow> command \<Rightarrow> gtype \<Rightarrow> string \<Rightarrow> fault + gval option"
  and bindFields ::
    "lib \<Rightarrow> command \<Rightarrow> (sfield \<times> gtype) list \<Rightarrow> string \<Rightarrow> fault + gval list \<times> bool" where
  "bindStruct L ctx t0 prefix =
     (case unreferenceType t0 of
        TStruct fs \<Rightarrow>
          (case bindFields L ctx fs prefix of
             Inl f \<Rightarrow> Inl f
           | Inr (vs, defined) \<Rightarrow> Inr (if defined then Some (VStruct vs) else None))
      | TTime \<Rightarrow> Inr None
      | _ \<Rightarrow> Inl Panic)"
| "bindFields L ctx [] prefix = Inr ([], False)"
| "bindFields L ctx ((sf, sft) # fs) prefix =
     (if PkgPath sf \<noteq> [] then onward (zeroValue sft) False (bindFields L ctx fs prefix)
      else
        let name = prefix @ ownName sf in
        if isStructLike sft then
          (if Anonymous sf \<and> Get (Tag sf) tagCLI \<noteq> [] then Inl (Error (EmbeddedHasTag (Name sf)))
           else
             (case bindStruct L ctx sft
                     (if \<not> Anonymous sf then prefix @ Get (Tag sf) tagCLIPrefix else prefix) of
                Inl (Error e) \<Rightarrow> Inl (Error (BindSubstruct (Name sf) e))
              | Inl Panic \<Rightarrow> Inl Panic
              | Inr None \<Rightarrow> onward (zeroValue sft) False (bindFields L ctx fs prefix)
              | Inr (Some subv) \<Rightarrow>
                  if Kind sft = KPointer then Inl Panic
                  else onward subv True (bindFields L ctx fs prefix)))
        else if \<not> IsSet ctx name \<and> omitEmptyOf sf then
          onward (zeroValue sft) False (bindFields L ctx fs prefix)
        else
          (case unreferenceValue sft (zeroValue sft) of
             (ft, field) \<Rightarrow>
               (case setFieldValue L ctx name sf sft ft field of
                  Inl (Error e) \<Rightarrow> Inl (Error (SetFieldValue (Name sf) e))
                | Inl Panic \<Rightarrow> Inl Panic
                | Inr x \<Rightarrow>
                    onward (if Kind sft = KPointer then zeroValue sft else x) True
                      (bindFields L ctx fs prefix))))"
  by pat_completeness auto
termination
proof -
  have le: "size (unreferenceType t) \<le> size t" for t
    by (induction t rule: unreferenceType.induct) auto
  show ?thesis
  proof (relation "measure (\<lambda>x. case x of
                      Inl (L, ctx, t, p) \<Rightarrow> 2 * size t + 2
                    | Inr (L, ctx, fs, p) \<Rightarrow> 2 * size_list (size_prod (\<lambda>_. 0) size) fs + 1)",
         goal_cases)
    case (2 L ctx t0 prefix fs)
    then show ?case using le [of t0] by simp
  qed simp_all
qed

text \<open>
  The argument \<open>dest\<close> of \<^verbatim>\<open>Bind\<close>: the nil interface, a value that is not a pointer, a nil
  pointer, or a pointer to a variable of type \<open>t\<close> that holds \<open>v\<close>. A call returns its error
  (\<open>None\<close> for nil) and leaves the variable in the state given, or it panics.
\<close>

datatype dest = UntypedNil | NonPointer gtype gval | NilPointer gtype | Pointer gtype gval

datatype outcome = Returns "err option" dest | Panics

definition Bind :: "lib \<Rightarrow> command \<Rightarrow> dest \<Rightarrow> outcome" where
  "Bind L ctx d =
     (case d of
        Pointer t cur \<Rightarrow>
          (case bindStruct L ctx (unreferenceType (TPointer t)) [] of
             Inl (Error e) \<Rightarrow> Returns (Some e) d
           | Inl Panic \<Rightarrow> Panics
           | Inr None \<Rightarrow> Returns None d
           | Inr (Some v) \<Rightarrow> if Kind t = KPointer then Panics else Returns None (Pointer t v))
      | _ \<Rightarrow> Returns (Some DestNotPointer) d)"

subsection \<open>One field at a time\<close>

text \<open>
  What one round of each loop does, by running the loop on a struct of that one field:
  the flags the field contributes, and the value and the \<open>defined\<close> bit it gives.
\<close>

definition genField :: "lib \<Rightarrow> sfield \<Rightarrow> gtype \<Rightarrow> string \<Rightarrow> flag list" where
  "genField L sf ft p = genFields L [(sf, ft)] p"

definition bindField ::
    "lib \<Rightarrow> command \<Rightarrow> sfield \<Rightarrow> gtype \<Rightarrow> string \<Rightarrow> fault + gval \<times> bool" where
  "bindField L ctx sf sft p =
     (case bindFields L ctx [(sf, sft)] p of Inl f \<Rightarrow> Inl f | Inr (vs, d) \<Rightarrow> Inr (hd vs, d))"

subsection \<open>The error kinds of the specification\<close>

text \<open>
  The specification sorts the errors into three kinds; a wrapped error has the kind of the
  error it wraps.
\<close>

datatype errorKind = InvalidDestination | ParseError | UnsupportedType

fun kindOf :: "err \<Rightarrow> errorKind" where
  "kindOf DestNotPointer = InvalidDestination"
| "kindOf (EmbeddedHasTag n) = UnsupportedType"
| "kindOf (BindSubstruct n e) = kindOf e"
| "kindOf (SetFieldValue n e) = kindOf e"
| "kindOf (MatrixType n) = UnsupportedType"
| "kindOf e = ParseError"

text \<open>
  A default string is malformed for a field of kind \<open>k\<close> when the parser of that kind
  reports a syntax error; \<open>zeroDefault\<close> is the zero value of the flag of that kind.
\<close>

definition numericOrBool :: "kind \<Rightarrow> bool" where
  "numericOrBool k = (k = KBool \<or> isAnyInt k \<or> isAnyUint k \<or> k = KFloat32 \<or> k = KFloat64)"

definition malformedDefault :: "lib \<Rightarrow> kind \<Rightarrow> string \<Rightarrow> bool" where
  "malformedDefault L k def =
     (if k = KBool then ParseBool def = ErrSyntax
      else if isAnyInt k then ParseInt def = ErrSyntax
      else if isAnyUint k then ParseUint def = ErrSyntax
      else ParseFloat L def = ErrSyntax)"

definition zeroDefault :: "kind \<Rightarrow> flagvalue" where
  "zeroDefault k =
     (if k = KBool then BoolValue False
      else if isAnyInt k then Int64Value 0
      else if isAnyUint k then Uint64Value 0
      else Float64Value 0)"

subsection \<open>Assigned and skipped fields\<close>

text \<open>
  A field is assigned when the loop of \<^verbatim>\<open>bindStruct\<close> does not skip it: it is exported, and
  it is a leaf whose flag is set or which is not marked \<^verbatim>\<open>omitempty\<close>, or it is a nested
  struct one of whose fields is assigned.
\<close>

function (sequential) assigned :: "command \<Rightarrow> string \<Rightarrow> sfield \<Rightarrow> gtype \<Rightarrow> bool"
  and anyAssigned :: "command \<Rightarrow> string \<Rightarrow> (sfield \<times> gtype) list \<Rightarrow> bool" where
  "assigned ctx p sf sft =
     (PkgPath sf = [] \<and>
      (if isStructLike sft then
         (case unreferenceType sft of
            TStruct fs \<Rightarrow>
              anyAssigned ctx (if \<not> Anonymous sf then p @ Get (Tag sf) tagCLIPrefix else p) fs
          | _ \<Rightarrow> False)
       else IsSet ctx (p @ ownName sf) \<or> \<not> omitEmptyOf sf))"
| "anyAssigned ctx p [] = False"
| "anyAssigned ctx p ((sf, sft) # fs) = (assigned ctx p sf sft \<or> anyAssigned ctx p fs)"
  by pat_completeness auto
termination
proof -
  have le: "size (unreferenceType t) \<le> size t" for t
    by (induction t rule: unreferenceType.induct) auto
  show ?thesis
  proof (relation "measure (\<lambda>x. case x of
                      Inl (ctx, p, sf, t) \<Rightarrow> 2 * size t + 2
                    | Inr (ctx, p, fs) \<Rightarrow> 2 * size_list (size_prod (\<lambda>_. 0) size) fs + 1)",
         goal_cases)
    case (2 ctx p sf sft fs)
    then show ?case using le [of sft] by simp
  qed simp_all
qed

subsection \<open>Values that fail to parse\<close>

text \<open>
  \<open>parseFails\<close>: the string has no value of the scalar type \<open>t\<close>, by the parser of that
  type (no string fails for a boolean or a string). \<open>semanticFailure\<close>: the flag of a
  duration, timestamp or identifier field holds such a string, or the flag of a sequence
  field holds one among its elements.
\<close>

definition parseFails :: "lib \<Rightarrow> sfield \<Rightarrow> gtype \<Rightarrow> string \<Rightarrow> bool" where
  "parseFails L sf t s =
     (if t = TDuration then s \<noteq> [] \<and> ParseDuration L s = None
      else if t = TTime then s \<noteq> [] \<and> timeParse L (layoutOf sf) s = None
      else if t = TUUID then s \<noteq> [] \<and> FromString L s = None
      else if isAnyInt (Kind t) then failed (ParseInt s)
      else if isAnyUint (Kind t) then failed (ParseUint s)
      else if Kind t = KFloat32 \<or> Kind t = KFloat64 then failed (ParseFloat L s)
      else False)"

definition semanticFailure :: "lib \<Rightarrow> command \<Rightarrow> string \<Rightarrow> sfield \<Rightarrow> gtype \<Rightarrow> bool" where
  "semanticFailure L ctx name sf sft =
     (case sft of
        TSlice e \<Rightarrow> list_ex (parseFails L sf e) (StringSlice ctx name)
      | _ \<Rightarrow>
          unreferenceType sft \<in> {TDuration, TTime, TUUID}
          \<and> parseFails L sf (unreferenceType sft) (String ctx name))"

subsection \<open>Round trips\<close>

text \<open>
  The scalar types. \<open>fieldFlag\<close> is the one flag the generator makes of a struct of one
  field, \<open>readFlag\<close> what the command holds for a flag, read by the accessor of the flag's
  kind, \<open>asField\<close> the value of type \<open>t\<close> equal to it (for a duration, a timestamp and an
  identifier the value the string denotes), and \<open>fits\<close> says that a number can be held in
  type \<open>t\<close>. \<open>expected\<close> is the value a field is to have after a round trip: for an
  exported field the value supplied for its flag, given that one is supplied and fits.
\<close>

fun scalar :: "gtype \<Rightarrow> bool" where
  "scalar TBool = True"
| "scalar (TInt k) = True"
| "scalar (TUint k) = True"
| "scalar TFloat32 = True"
| "scalar TFloat64 = True"
| "scalar TString = True"
| "scalar TDuration = True"
| "scalar TTime = True"
| "scalar TUUID = True"
| "scalar t = False"

definition fieldFlag :: "lib \<Rightarrow> sfield \<Rightarrow> gtype \<Rightarrow> flag option" where
  "fieldFlag L sf t =
     (case FlagsFromStruct L (TStruct [(sf, t)]) of [f] \<Rightarrow> Some f | _ \<Rightarrow> None)"

definition readFlag :: "command \<Rightarrow> flag \<Rightarrow> flagvalue" where
  "readFlag ctx f =
     (case Value f of
        StringValue d \<Rightarrow> StringValue (String ctx (FlagName f))
      | BoolValue d \<Rightarrow> BoolValue (Bool ctx (FlagName f))
      | Int64Value d \<Rightarrow> Int64Value (Int64 ctx (FlagName f))
      | Uint64Value d \<Rightarrow> Uint64Value (Uint64 ctx (FlagName f))
      | Float64Value d \<Rightarrow> Float64Value (Float64 ctx (FlagName f))
      | StringSliceValue d \<Rightarrow> StringSliceValue (StringSlice ctx (FlagName f)))"

definition asField :: "lib \<Rightarrow> sfield \<Rightarrow> gtype \<Rightarrow> flagvalue \<Rightarrow> gval option" where
  "asField L sf t v =
     (case t of
        TBool \<Rightarrow> (case v of BoolValue b \<Rightarrow> Some (VBool b) | _ \<Rightarrow> None)
      | TInt k \<Rightarrow> (case v of Int64Value i \<Rightarrow> Some (VInt (sint i)) | _ \<Rightarrow> None)
      | TUint k \<Rightarrow> (case v of Uint64Value u \<Rightarrow> Some (VUint (unat u)) | _ \<Rightarrow> None)
      | TFloat32 \<Rightarrow> (case v of Float64Value x \<Rightarrow> Some (VFloat x) | _ \<Rightarrow> None)
      | TFloat64 \<Rightarrow> (case v of Float64Value x \<Rightarrow> Some (VFloat x) | _ \<Rightarrow> None)
      | TString \<Rightarrow> (case v of StringValue s \<Rightarrow> Some (VString s) | _ \<Rightarrow> None)
      | TDuration \<Rightarrow>
          (case v of
             StringValue s \<Rightarrow>
               if s = [] then Some (VDuration 0) else map_option VDuration (ParseDuration L s)
           | _ \<Rightarrow> None)
      | TTime \<Rightarrow>
          (case v of
             StringValue s \<Rightarrow>
               if s = [] then Some (VTime 0) else map_option VTime (timeParse L (layoutOf sf) s)
           | _ \<Rightarrow> None)
      | TUUID \<Rightarrow>
          (case v of
             StringValue s \<Rightarrow>
               if s = [] then Some (VUUID 0) else map_option VUUID (FromString L s)
           | _ \<Rightarrow> None)
      | _ \<Rightarrow> None)"

definition fits :: "lib \<Rightarrow> gtype \<Rightarrow> flagvalue \<Rightarrow> bool" where
  "fits L t v =
     (case v of
        Int64Value i \<Rightarrow>
          - (2 ^ (intBits (Kind t) - 1)) \<le> sint i \<and> sint i < 2 ^ (intBits (Kind t) - 1)
      | Uint64Value u \<Rightarrow> unat u < 2 ^ intBits (Kind t)
      | Float64Value x \<Rightarrow> t = TFloat32 \<longrightarrow> toFloat32 L x = x
      | _ \<Rightarrow> True)"

definition expected :: "lib \<Rightarrow> command \<Rightarrow> sfield \<times> gtype \<Rightarrow> gval option" where
  "expected L ctx f =
     (case f of
        (sf, t) \<Rightarrow>
          if PkgPath sf \<noteq> [] then Some (zeroValue t)
          else (case fieldFlag L sf t of
                  None \<Rightarrow> None
                | Some fl \<Rightarrow>
                    if IsSet ctx (FlagName fl) \<and> fits L t (readFlag ctx fl)
                    then asField L sf t (readFlag ctx fl) else None))"

subsection \<open>Example inputs\<close>

text \<open>
  A command whose flags hold the values of a table: an accessor returns the value of a
  flag of its kind and the zero value otherwise, and the flags of the table are set. A
  library whose parsers know a few strings. An exported and an unexported field.
\<close>

definition commandOf :: "(string \<times> flagvalue) list \<Rightarrow> command" where
  "commandOf tab =
     \<lparr>IsSet = (\<lambda>n. map_of tab n \<noteq> None),
      String = (\<lambda>n. case map_of tab n of Some (StringValue s) \<Rightarrow> s | _ \<Rightarrow> []),
      Bool = (\<lambda>n. case map_of tab n of Some (BoolValue b) \<Rightarrow> b | _ \<Rightarrow> False),
      Int64 = (\<lambda>n. case map_of tab n of Some (Int64Value i) \<Rightarrow> i | _ \<Rightarrow> 0),
      Uint64 = (\<lambda>n. case map_of tab n of Some (Uint64Value i) \<Rightarrow> i | _ \<Rightarrow> 0),
      Float64 = (\<lambda>n. case map_of tab n of Some (Float64Value x) \<Rightarrow> x | _ \<Rightarrow> 0),
      StringSlice = (\<lambda>n. case map_of tab n of Some (StringSliceValue ss) \<Rightarrow> ss | _ \<Rightarrow> [])\<rparr>"

definition exLib :: lib where
  "exLib =
     \<lparr>ParseFloat = (\<lambda>s. if s = ''0'' then Parsed 0 else ErrSyntax),
      ParseDuration = (\<lambda>s. if s = ''1s'' then Some 1000000000
                              else if s = ''2s'' then Some 2000000000 else None),
      timeParse = (\<lambda>layout s. if s = ''0001-01-02'' \<and> layout = ''2006-01-02''
                              then Some 86400000000000 else None),
      FromString = (\<lambda>s. if s = ''00000000-0000-0000-0000-000000000001'' then Some 1 else None),
      toFloat32 = (\<lambda>x. x)\<rparr>"

definition plainField :: "string \<Rightarrow> (string \<times> string) list \<Rightarrow> sfield" where
  "plainField n tag = \<lparr>Name = n, PkgPath = [], Anonymous = False, Tag = tag\<rparr>"

definition hiddenField :: "string \<Rightarrow> (string \<times> string) list \<Rightarrow> sfield" where
  "hiddenField n tag = \<lparr>Name = n, PkgPath = ''main'', Anonymous = False, Tag = tag\<rparr>"

definition exSecret :: "(sfield \<times> gtype) list" where
  "exSecret = [(hiddenField ''secret'' [(''cli'', ''count'')], TString),
               (plainField ''Count'' [(''cli'', ''count'')], TInt IInt)]"

definition exMatrix :: "(sfield \<times> gtype) list" where
  "exMatrix = [(plainField ''M'' [], TSlice (TSlice TString))]"

definition exOmit :: "(sfield \<times> gtype) list" where
  "exOmit = [(plainField ''Name'' [(''cli'', ''name,omitempty'')], TString),
             (plainField ''Count'' [(''cli'', ''count'')], TInt IInt)]"

definition exDelay :: "(sfield \<times> gtype) list" where
  "exDelay = [(plainField ''Name'' [], TString), (plainField ''Delay'' [], TDuration)]"

definition exSmall :: "(sfield \<times> gtype) list" where
  "exSmall = [(plainField ''N'' [], TInt IInt8)]"

definition exAll :: "(sfield \<times> gtype) list" where
  "exAll = [(plainField ''Name'' [(''cli'', ''name,n'')], TString),
            (plainField ''Count'' [(''cli'', ''count'')], TInt IInt),
            (plainField ''Delay'' [], TDuration),
            (plainField ''Debug'' [(''cli'', ''debug,omitempty'')], TBool)]"

definition exAllCommand :: command where
  "exAllCommand = commandOf [(''name'', StringValue ''guest''), (''count'', Int64Value 7),
       (''delay'', StringValue ''1s''), (''debug'', BoolValue True)]"

definition exNested :: "(sfield \<times> gtype) list" where
  "exNested = [(plainField ''X'' [(''cli'', ''x'')], TInt IInt),
               (plainField ''Sub'' [], TStruct [(plainField ''X'' [(''cli'', ''x'')], TInt IInt)])]"

definition exDurations :: "(sfield \<times> gtype) list" where
  "exDurations = [(plainField ''Waits'' [], TSlice TDuration),
                  (plainField ''Marks'' [], TSlice TBool)]"

section \<open>Properties\<close>

declare bindStruct.simps [simp del]
declare unreferenceValue.simps [simp del]
declare assigned.simps [simp del]

lemmas tag_defs = tagCLI_def tagCLIDefault_def tagCLIUsage_def tagCLITimeFmt_def tagCLIPrefix_def

lemmas string_defs = Get_def TrimSpace_def isSpace_def splitCSV_def ToLower_def lowerChar_def
  parseNamesWithOptions_def ownName_def omitEmptyOf_def aliasesOf_def

lemmas parse_defs = ParseInt_def ParseUintNat_def ParseUint_def ParseBool_def boolOf_def
  isDigit_def digitVal_def maxUint64_def

subsection \<open>Kinds\<close>

lemma intKindOf_kind [simp]:
  "isAnyInt (intKindOf k)" "\<not> isAnyUint (intKindOf k)"
  "intKindOf k \<noteq> KBool" "intKindOf k \<noteq> KFloat32" "intKindOf k \<noteq> KFloat64"
  "intKindOf k \<noteq> KString" "intKindOf k \<noteq> KSlice" "intKindOf k \<noteq> KStruct"
  "intKindOf k \<noteq> KPointer"
  by (cases k; simp add: isAnyInt_def isAnyUint_def)+

lemma uintKindOf_kind [simp]:
  "isAnyUint (uintKindOf k)" "\<not> isAnyInt (uintKindOf k)"
  "uintKindOf k \<noteq> KBool" "uintKindOf k \<noteq> KFloat32" "uintKindOf k \<noteq> KFloat64"
  "uintKindOf k \<noteq> KString" "uintKindOf k \<noteq> KSlice" "uintKindOf k \<noteq> KStruct"
  "uintKindOf k \<noteq> KPointer"
  by (cases k; simp add: isAnyInt_def isAnyUint_def)+

lemma otherKindOf_kind [simp]:
  "\<not> isAnyInt (otherKindOf k)" "\<not> isAnyUint (otherKindOf k)"
  "otherKindOf k \<noteq> KBool" "otherKindOf k \<noteq> KFloat32" "otherKindOf k \<noteq> KFloat64"
  "otherKindOf k \<noteq> KString" "otherKindOf k \<noteq> KSlice" "otherKindOf k \<noteq> KStruct"
  "otherKindOf k \<noteq> KPointer"
  by (cases k; simp add: isAnyInt_def isAnyUint_def)+

lemma isAnyInt_simps [simp]:
  "isAnyInt KInt64" "\<not> isAnyInt KBool" "\<not> isAnyInt KFloat32" "\<not> isAnyInt KFloat64"
  "\<not> isAnyInt KString" "\<not> isAnyInt KSlice" "\<not> isAnyInt KStruct" "\<not> isAnyInt KPointer"
  "\<not> isAnyInt KArray"
  by (simp_all add: isAnyInt_def)

lemma isAnyUint_simps [simp]:
  "\<not> isAnyUint KInt64" "\<not> isAnyUint KBool" "\<not> isAnyUint KFloat32" "\<not> isAnyUint KFloat64"
  "\<not> isAnyUint KString" "\<not> isAnyUint KSlice" "\<not> isAnyUint KStruct" "\<not> isAnyUint KPointer"
  "\<not> isAnyUint KArray"
  by (simp_all add: isAnyUint_def)

lemma unreferenceType_not_pointer [simp]: "unreferenceType t \<noteq> TPointer e"
  by (induction t rule: unreferenceType.induct) auto

lemma unreferenceType_idem [simp]: "unreferenceType (unreferenceType t) = unreferenceType t"
  by (induction t rule: unreferenceType.induct) auto

lemma isStructLike_cases: "isStructLike t \<Longrightarrow> \<exists>fs. unreferenceType t = TStruct fs"
  by (cases "unreferenceType t") (auto simp: isStructLike_def Let_def)

subsection \<open>The generator, field by field\<close>

lemma genFields_Cons: "genFields L ((sf, ft) # fs) p = genField L sf ft p @ genFields L fs p"
  by (simp add: genField_def)

lemma genFields_append: "genFields L (xs @ ys) p = genFields L xs p @ genFields L ys p"
proof (induction xs)
  case Nil
  show ?case by simp
next
  case (Cons f xs)
  obtain sf ft where f: "f = (sf, ft)" by (cases f)
  show ?case unfolding f append_Cons genFields_Cons [of L sf ft] Cons.IH by simp
qed

lemma genFlagsForStruct_split:
  "genFlagsForStruct L (TStruct (pre @ (sf, ft) # post)) p =
     genFlagsForStruct L (TStruct pre) p @ genField L sf ft p @ genFlagsForStruct L (TStruct post) p"
  unfolding genFlagsForStruct.simps(1) genFields_append genFields_Cons [of L sf ft post] ..

lemma genField_unexported: "PkgPath sf \<noteq> [] \<Longrightarrow> genField L sf ft p = []"
  by (simp add: genField_def)

lemma genField_leaf:
  "PkgPath sf = [] \<Longrightarrow> \<not> isStructLike ft \<Longrightarrow> genField L sf ft p = genLeaf L sf ft p"
  by (simp add: genField_def)

lemma genLeaf_required:
  "f \<in> set (genLeaf L sf ft p) \<Longrightarrow>
     Required f = (\<not> omitEmptyOf sf \<and> Get (Tag sf) tagCLIDefault = [])"
  by (auto simp: genLeaf_def Let_def split: if_splits)

lemma genLeaf_length: "length (genLeaf L sf ft p) \<le> 1"
  by (simp add: genLeaf_def Let_def)

lemma genLeaf_slice:
  "Kind (unreferenceType ft) = KSlice \<Longrightarrow>
   genLeaf L sf ft p =
     [\<lparr>FlagName = p @ ownName sf,
       Aliases = map (\<lambda>a. if length a > 1 then p @ a else a) (aliasesOf sf),
       Usage = Get (Tag sf) tagCLIUsage,
       Value = StringSliceValue (splitCSV (Get (Tag sf) tagCLIDefault)),
       DefaultText = Get (Tag sf) tagCLIDefault,
       Required = (\<not> omitEmptyOf sf \<and> Get (Tag sf) tagCLIDefault = [])\<rparr>]"
  by (cases ft) (auto simp: genLeaf_def Let_def isAnyInt_def isAnyUint_def)

lemma genFields_filter_exported:
  "genFields L (filter (\<lambda>f. PkgPath (fst f) = []) fs) p = genFields L fs p"
proof (induction fs)
  case Nil
  show ?case by simp
next
  case (Cons f fs)
  obtain sf ft where f: "f = (sf, ft)" by (cases f)
  show ?case
  proof (cases "PkgPath sf = []")
    case True
    then show ?thesis by (simp add: f genFields_Cons Cons.IH del: genFields.simps)
  next
    case False
    then show ?thesis
      by (simp add: f genFields_Cons genField_unexported Cons.IH del: genFields.simps)
  qed
qed

subsection \<open>Required flags\<close>

text \<open>
  Claim C6. For every leaf field (exported, not a nested struct), wherever it stands in
  its struct and whatever the prefix: the field contributes at most one flag to the output
  of the generator, and that flag is required if and only if the field has no default
  (\<^verbatim>\<open>cliDefault\<close> absent or empty) and is not marked \<^verbatim>\<open>omitempty\<close>, as
  \<^verbatim>\<open>parseNamesWithOptions\<close> reads the \<^verbatim>\<open>cli\<close> tag.
\<close>

theorem required_iff_no_default_and_not_omitempty:
  assumes "PkgPath sf = []" and "\<not> isStructLike ft"
  shows "\<exists>fl. genFlagsForStruct L (TStruct (pre @ (sf, ft) # post)) p =
                genFlagsForStruct L (TStruct pre) p @ fl @ genFlagsForStruct L (TStruct post) p
            \<and> length fl \<le> 1
            \<and> (\<forall>f \<in> set fl.
                 Required f = (\<not> omitEmptyOf sf \<and> Get (Tag sf) tagCLIDefault = []))"
proof (intro exI conjI ballI)
  show "genFlagsForStruct L (TStruct (pre @ (sf, ft) # post)) p =
          genFlagsForStruct L (TStruct pre) p @ genLeaf L sf ft p
            @ genFlagsForStruct L (TStruct post) p"
    unfolding genFlagsForStruct_split genField_leaf [OF assms] ..
  show "length (genLeaf L sf ft p) \<le> 1" by (rule genLeaf_length)
  show "Required f = (\<not> omitEmptyOf sf \<and> Get (Tag sf) tagCLIDefault = [])"
    if "f \<in> set (genLeaf L sf ft p)" for f
    using that by (rule genLeaf_required)
qed

theorem required_iff_no_default_and_not_omitempty_witness:
  "\<exists>fl. genFlagsForStruct exLib
           (TStruct ([] @ (plainField ''Count'' [(''cli'', ''count'')], TInt IInt) # [])) [] =
          genFlagsForStruct exLib (TStruct []) [] @ fl @ genFlagsForStruct exLib (TStruct []) []
        \<and> length fl \<le> 1
        \<and> (\<forall>f \<in> set fl. Required f = True)"
proof -
  let ?sf = "plainField ''Count'' [(''cli'', ''count'')]"
  have 1: "PkgPath ?sf = []" by (simp add: plainField_def)
  have 2: "\<not> isStructLike (TInt IInt)" by (simp add: isStructLike_def)
  have 3: "(\<not> omitEmptyOf ?sf \<and> Get (Tag ?sf) tagCLIDefault = []) = True"
    by (simp add: plainField_def string_defs tag_defs)
  show ?thesis
    using required_iff_no_default_and_not_omitempty [OF 1 2, of exLib "[]" "[]" "[]"]
    unfolding 3 .
qed

subsection \<open>Malformed defaults\<close>

lemma numericOrBool_not_structLike:
  "numericOrBool (Kind (unreferenceType ft)) \<Longrightarrow> \<not> isStructLike ft"
  by (auto simp: numericOrBool_def isStructLike_def isAnyInt_def isAnyUint_def Let_def)

lemma genLeaf_malformed:
  assumes "ft \<noteq> TDuration" and "numericOrBool (Kind (unreferenceType ft))"
    and "malformedDefault L (Kind (unreferenceType ft)) (Get (Tag sf) tagCLIDefault)"
  shows "\<exists>f. genLeaf L sf ft p = [f] \<and> Value f = zeroDefault (Kind (unreferenceType ft))"
  using assms
  by (auto simp: genLeaf_def Let_def numericOrBool_def malformedDefault_def zeroDefault_def
      boolOf_def isAnyInt_def isAnyUint_def)

text \<open>
  Claim C8. The generator has no error outcome: it returns a list of flags. An exported
  field of boolean, integer or floating-point kind whose default string is malformed (its
  parser reports a syntax error) contributes exactly one flag, and the default value of
  that flag is the zero value of its kind.
\<close>

theorem malformed_default_is_zero:
  assumes "PkgPath sf = []" and "ft \<noteq> TDuration"
    and "numericOrBool (Kind (unreferenceType ft))"
    and "malformedDefault L (Kind (unreferenceType ft)) (Get (Tag sf) tagCLIDefault)"
  shows "\<exists>f. genFlagsForStruct L (TStruct (pre @ (sf, ft) # post)) p =
               genFlagsForStruct L (TStruct pre) p @ [f] @ genFlagsForStruct L (TStruct post) p
             \<and> Value f = zeroDefault (Kind (unreferenceType ft))"
proof -
  have leaf: "genField L sf ft p = genLeaf L sf ft p"
    using assms(1) numericOrBool_not_structLike [OF assms(3)] by (rule genField_leaf)
  from genLeaf_malformed [OF assms(2-4), of p] obtain f where
    f: "genLeaf L sf ft p = [f]" and v: "Value f = zeroDefault (Kind (unreferenceType ft))"
    by blast
  show ?thesis
    unfolding genFlagsForStruct_split leaf f using v by blast
qed

theorem malformed_default_is_zero_witness:
  "\<exists>f. genFlagsForStruct exLib
          (TStruct ([] @ (plainField ''Count'' [(''cli'', ''count''), (''cliDefault'', ''3x'')],
                          TInt IInt) # [])) [] =
        genFlagsForStruct exLib (TStruct []) [] @ [f] @ genFlagsForStruct exLib (TStruct []) []
      \<and> Value f = Int64Value 0"
proof -
  let ?sf = "plainField ''Count'' [(''cli'', ''count''), (''cliDefault'', ''3x'')]"
  have 1: "PkgPath ?sf = []" by (simp add: plainField_def)
  have 2: "TInt IInt \<noteq> TDuration" by simp
  have 3: "numericOrBool (Kind (unreferenceType (TInt IInt)))"
    by (simp add: numericOrBool_def isAnyInt_def)
  have 4: "malformedDefault exLib (Kind (unreferenceType (TInt IInt)))
             (Get (Tag ?sf) tagCLIDefault)"
    by (simp add: malformedDefault_def isAnyInt_def plainField_def Get_def tag_defs parse_defs)
  show ?thesis
    using malformed_default_is_zero [OF 1 2 3 4, of "[]" "[]" "[]"]
    by (simp add: zeroDefault_def isAnyInt_def)
qed

text \<open>A default that is a number out of range is not malformed: the flag gets the bound.\<close>

lemma out_of_range_default_saturates:
  "ParseInt ''99999999999999999999'' = ErrRange 9223372036854775807"
  by (simp add: parse_defs)

subsection \<open>The binder, field by field\<close>

lemma onward_eq_Inr:
  "onward x d r = Inr (vs, dd) \<longleftrightarrow> (\<exists>ws e. r = Inr (ws, e) \<and> vs = x # ws \<and> dd = (d \<or> e))"
  by (cases r) auto

lemma bindFields_Cons:
  "bindFields L ctx ((sf, sft) # fs) p =
     (case bindField L ctx sf sft p of
        Inl f \<Rightarrow> Inl f
      | Inr (x, d) \<Rightarrow> onward x d (bindFields L ctx fs p))"
  by (simp add: bindField_def Let_def split: sum.splits fault.splits option.splits prod.splits)

lemma bindField_unexported:
  "PkgPath sf \<noteq> [] \<Longrightarrow> bindField L ctx sf sft p = Inr (zeroValue sft, False)"
  by (simp add: bindField_def)

lemma bindField_skipped:
  "PkgPath sf = [] \<Longrightarrow> \<not> isStructLike sft \<Longrightarrow> \<not> IsSet ctx (p @ ownName sf) \<Longrightarrow> omitEmptyOf sf
     \<Longrightarrow> bindField L ctx sf sft p = Inr (zeroValue sft, False)"
  by (simp add: bindField_def)

lemma bindField_leaf:
  "PkgPath sf = [] \<Longrightarrow> \<not> isStructLike sft \<Longrightarrow> \<not> (\<not> IsSet ctx (p @ ownName sf) \<and> omitEmptyOf sf)
     \<Longrightarrow> bindField L ctx sf sft p =
       (case setFieldValue L ctx (p @ ownName sf) sf sft
               (fst (unreferenceValue sft (zeroValue sft)))
               (snd (unreferenceValue sft (zeroValue sft))) of
          Inl (Error e) \<Rightarrow> Inl (Error (SetFieldValue (Name sf) e))
        | Inl Panic \<Rightarrow> Inl Panic
        | Inr x \<Rightarrow> Inr (if Kind sft = KPointer then zeroValue sft else x, True))"
  by (simp add: bindField_def Let_def split: sum.splits fault.splits option.splits prod.splits)

lemma bindField_struct:
  "PkgPath sf = [] \<Longrightarrow> isStructLike sft \<Longrightarrow>
     bindField L ctx sf sft p =
       (if Anonymous sf \<and> Get (Tag sf) tagCLI \<noteq> [] then Inl (Error (EmbeddedHasTag (Name sf)))
        else (case bindStruct L ctx sft
                     (if \<not> Anonymous sf then p @ Get (Tag sf) tagCLIPrefix else p) of
                Inl (Error e) \<Rightarrow> Inl (Error (BindSubstruct (Name sf) e))
              | Inl Panic \<Rightarrow> Inl Panic
              | Inr None \<Rightarrow> Inr (zeroValue sft, False)
              | Inr (Some subv) \<Rightarrow> if Kind sft = KPointer then Inl Panic else Inr (subv, True)))"
  by (simp add: bindField_def Let_def split: sum.splits fault.splits option.splits prod.splits)

declare bindFields.simps(2) [simp del]

lemma bindFields_append:
  "bindFields L ctx (xs @ ys) p =
     (case bindFields L ctx xs p of
        Inl f \<Rightarrow> Inl f
      | Inr (vs, d) \<Rightarrow>
          (case bindFields L ctx ys p of
             Inl f \<Rightarrow> Inl f
           | Inr (ws, e) \<Rightarrow> Inr (vs @ ws, d \<or> e)))"
proof (induction xs)
  case Nil
  show ?case by (simp split: sum.splits)
next
  case (Cons f xs)
  obtain sf ft where f: "f = (sf, ft)" by (cases f)
  show ?case
    unfolding f append_Cons bindFields_Cons [of L ctx sf ft] Cons.IH
    by (simp split: sum.splits prod.splits)
qed

lemma bindFields_Cons_Inr:
  "bindFields L ctx ((sf, sft) # fs) p = Inr (vs, dd) \<longleftrightarrow>
     (\<exists>x d ws e. bindField L ctx sf sft p = Inr (x, d) \<and> bindFields L ctx fs p = Inr (ws, e)
        \<and> vs = x # ws \<and> dd = (d \<or> e))"
  unfolding bindFields_Cons [of L ctx sf sft]
  by (auto simp: onward_eq_Inr split: sum.splits prod.splits)

lemma bindFields_length: "bindFields L ctx fs p = Inr (vs, d) \<Longrightarrow> length vs = length fs"
proof (induction fs arbitrary: vs d)
  case Nil
  then show ?case by simp
next
  case (Cons f fs)
  obtain sf ft where f: "f = (sf, ft)" by (cases f)
  from Cons.prems show ?case
    unfolding f bindFields_Cons_Inr by (auto dest: Cons.IH)
qed

lemma bindFields_unexported:
  "bindFields L ctx fs p = Inr (vs, d) \<Longrightarrow> i < length fs \<Longrightarrow> PkgPath (fst (fs ! i)) \<noteq> []
     \<Longrightarrow> vs ! i = zeroValue (snd (fs ! i))"
proof (induction fs arbitrary: vs d i)
  case Nil
  then show ?case by simp
next
  case (Cons f fs)
  obtain sf ft where f: "f = (sf, ft)" by (cases f)
  from Cons.prems(1) obtain x dx ws e where
    x: "bindField L ctx sf ft p = Inr (x, dx)" and ws: "bindFields L ctx fs p = Inr (ws, e)"
    and vs: "vs = x # ws"
    unfolding f bindFields_Cons_Inr by blast
  show ?case
  proof (cases i)
    case 0
    with Cons.prems(3) x show ?thesis by (simp add: f vs bindField_unexported)
  next
    case (Suc j)
    with Cons.prems(2,3) Cons.IH [OF ws, of j] show ?thesis by (simp add: vs)
  qed
qed

text \<open>\<^verbatim>\<open>Bind\<close> on a pointer to a struct, by the outcome of the loop over its fields.\<close>

lemma Bind_struct:
  "Bind L ctx (Pointer (TStruct fs) old) =
     (case bindFields L ctx fs [] of
        Inl (Error e) \<Rightarrow> Returns (Some e) (Pointer (TStruct fs) old)
      | Inl Panic \<Rightarrow> Panics
      | Inr (vs, defined) \<Rightarrow>
          Returns None (Pointer (TStruct fs) (if defined then VStruct vs else old)))"
  by (simp add: Bind_def bindStruct.simps split: sum.splits fault.splits prod.splits)

lemma Bind_field_error:
  assumes "bindFields L ctx pre [] = Inr (vs, d)"
    and "bindField L ctx sf sft [] = Inl (Error e)"
  shows "Bind L ctx (Pointer (TStruct (pre @ (sf, sft) # post)) old) =
           Returns (Some e) (Pointer (TStruct (pre @ (sf, sft) # post)) old)"
  unfolding Bind_struct bindFields_append bindFields_Cons [of L ctx sf sft] using assms by simp

lemma commandOf_sel:
  "IsSet (commandOf tab) n = (map_of tab n \<noteq> None)"
  "String (commandOf tab) n = (case map_of tab n of Some (StringValue s) \<Rightarrow> s | _ \<Rightarrow> [])"
  "Bool (commandOf tab) n = (case map_of tab n of Some (BoolValue b) \<Rightarrow> b | _ \<Rightarrow> False)"
  "Int64 (commandOf tab) n = (case map_of tab n of Some (Int64Value i) \<Rightarrow> i | _ \<Rightarrow> 0)"
  "Uint64 (commandOf tab) n = (case map_of tab n of Some (Uint64Value i) \<Rightarrow> i | _ \<Rightarrow> 0)"
  "Float64 (commandOf tab) n = (case map_of tab n of Some (Float64Value x) \<Rightarrow> x | _ \<Rightarrow> 0)"
  "StringSlice (commandOf tab) n =
     (case map_of tab n of Some (StringSliceValue ss) \<Rightarrow> ss | _ \<Rightarrow> [])"
  by (simp_all add: commandOf_def)

lemmas bind_defs = Bind_struct bindFields.simps(2) setFieldValue_def setSliceField_def
  SetValue_def castAndSetInt_def castAndSetUint_def SetInt_def SetUint_def SetFloat_def
  intBits_def isAnyInt_def isAnyUint_def isStructLike_def unreferenceValue.simps layoutOf_def
  commandOf_sel sliceElem_def Let_def

subsection \<open>Unexported fields\<close>

text \<open>
  Claim C10. For every struct type and every unexported field of it, whatever its tags:
  the generator emits the flags it emits for the struct without its unexported fields, and
  whenever \<^verbatim>\<open>Bind\<close> returns, the destination is as it was or it is the new struct value, in
  which the unexported field holds the zero value of its type: no flag value is ever
  assigned to it.
\<close>

theorem unexported_fields_invisible:
  assumes "i < length fs" and "PkgPath (fst (fs ! i)) \<noteq> []"
    and "Bind L ctx (Pointer (TStruct fs) old) = Returns e d'"
  shows "genFlagsForStruct L (TStruct fs) p =
           genFlagsForStruct L (TStruct (filter (\<lambda>f. PkgPath (fst f) = []) fs)) p
         \<and> (d' = Pointer (TStruct fs) old
            \<or> (\<exists>vs. d' = Pointer (TStruct fs) (VStruct vs) \<and> length vs = length fs
                  \<and> vs ! i = zeroValue (snd (fs ! i))))"
proof
  show "genFlagsForStruct L (TStruct fs) p =
          genFlagsForStruct L (TStruct (filter (\<lambda>f. PkgPath (fst f) = []) fs)) p"
    by (simp only: genFlagsForStruct.simps(1) genFields_filter_exported)
  show "d' = Pointer (TStruct fs) old
         \<or> (\<exists>vs. d' = Pointer (TStruct fs) (VStruct vs) \<and> length vs = length fs
               \<and> vs ! i = zeroValue (snd (fs ! i)))"
  proof (cases "bindFields L ctx fs []")
    case (Inl f)
    with assms(3) show ?thesis by (cases f) (simp_all add: Bind_struct)
  next
    case (Inr r)
    obtain vs defined where r: "r = (vs, defined)" by (cases r)
    from Inr r have b: "bindFields L ctx fs [] = Inr (vs, defined)" by simp
    from assms(3) have d': "d' = Pointer (TStruct fs) (if defined then VStruct vs else old)"
      by (simp add: Bind_struct b)
    show ?thesis
      using d' bindFields_length [OF b] bindFields_unexported [OF b assms(1,2)] by auto
  qed
qed

theorem unexported_fields_invisible_witness:
  "Bind exLib (commandOf [(''count'', Int64Value 7)])
       (Pointer (TStruct exSecret) (VStruct [VString ''keep'', VInt 0])) =
     Returns None (Pointer (TStruct exSecret) (VStruct [VString [], VInt 7]))
   \<and> genFlagsForStruct exLib (TStruct exSecret) [] =
       genFlagsForStruct exLib (TStruct (filter (\<lambda>f. PkgPath (fst f) = []) exSecret)) []"
proof -
  have 1: "0 < length exSecret" by (simp add: exSecret_def)
  have 2: "PkgPath (fst (exSecret ! 0)) \<noteq> []" by (simp add: exSecret_def hiddenField_def)
  have 3: "Bind exLib (commandOf [(''count'', Int64Value 7)])
             (Pointer (TStruct exSecret) (VStruct [VString ''keep'', VInt 0])) =
           Returns None (Pointer (TStruct exSecret) (VStruct [VString [], VInt 7]))"
    by (simp add: exSecret_def plainField_def hiddenField_def bind_defs string_defs tag_defs)
  show ?thesis
    using unexported_fields_invisible [OF 1 2 3, of "[]"] 3 by blast
qed

subsection \<open>The destination\<close>

lemma Bind_not_pointer:
  "Bind L ctx UntypedNil = Returns (Some DestNotPointer) UntypedNil"
  "Bind L ctx (NonPointer t v) = Returns (Some DestNotPointer) (NonPointer t v)"
  "Bind L ctx (NilPointer t) = Returns (Some DestNotPointer) (NilPointer t)"
  by (simp_all add: Bind_def)

lemma bindField_not_DestNotPointer: "bindField L ctx sf sft p \<noteq> Inl (Error DestNotPointer)"
proof (cases "PkgPath sf = []")
  case False
  then show ?thesis by (simp add: bindField_unexported)
next
  case True
  show ?thesis
  proof (cases "isStructLike sft")
    case True
    with \<open>PkgPath sf = []\<close> show ?thesis
      by (simp add: bindField_struct split: sum.splits fault.splits option.splits)
  next
    case False
    show ?thesis
    proof (cases "\<not> IsSet ctx (p @ ownName sf) \<and> omitEmptyOf sf")
      case True
      with False \<open>PkgPath sf = []\<close> show ?thesis by (simp add: bindField_skipped)
    next
      case nskip: False
      show ?thesis
        unfolding bindField_leaf [OF \<open>PkgPath sf = []\<close> False nskip]
        by (simp split: sum.splits fault.splits)
    qed
  qed
qed

lemma bindFields_not_DestNotPointer: "bindFields L ctx fs p \<noteq> Inl (Error DestNotPointer)"
proof (induction fs)
  case Nil
  show ?case by simp
next
  case (Cons f fs)
  obtain sf ft where f: "f = (sf, ft)" by (cases f)
  show ?case
    unfolding f bindFields_Cons [of L ctx sf ft]
    using Cons.IH bindField_not_DestNotPointer [of L ctx sf ft p]
    by (cases "bindFields L ctx fs p") (auto split: sum.splits prod.splits)
qed

text \<open>
  A destination that is no pointer, or a nil pointer, gets the error; a pointer to a struct
  never does.
\<close>

lemma Bind_struct_not_DestNotPointer:
  "Bind L ctx (Pointer (TStruct fs) old) \<noteq> Returns (Some DestNotPointer) d'"
  using bindFields_not_DestNotPointer [of L ctx fs "[]"]
  by (auto simp: Bind_struct split: sum.splits fault.splits prod.splits)

text \<open>
  Claim C2. A destination that is not a non-nil pointer to a struct is to be refused with
  an error. The code does so unless the destination is a non-nil pointer to something
  else: for a pointer to an \<^verbatim>\<open>int\<close>, \<^verbatim>\<open>Bind\<close> returns no error at all, it panics in
  \<^verbatim>\<open>NumField\<close>.
\<close>

theorem Bind_pointer_to_int_panics: "Bind L ctx (Pointer (TInt IInt) (VInt n)) = Panics"
  by (simp add: Bind_def bindStruct.simps)

subsection \<open>Sequences of sequences\<close>

lemma sliceLoop_matrix:
  "raw \<noteq> [] \<Longrightarrow> sliceLoop L sf (TSlice e) raw = Inl (Error (MatrixType (Name sf)))"
  by (cases raw) (simp_all add: sliceElem_def isAnyInt_def isAnyUint_def)

lemma setFieldValue_matrix:
  "setFieldValue L ctx name sf (TSlice (TSlice e)) (TSlice (TSlice e)) VNil =
     (if StringSlice ctx name = [] then Inr VNil else Inl (Error (MatrixType (Name sf))))"
  by (simp add: setFieldValue_def setSliceField_def isAnyInt_def isAnyUint_def sliceLoop_matrix)

lemma bindField_matrix:
  assumes "PkgPath sf = []"
  shows "bindField L ctx sf (TSlice (TSlice e)) p =
     (if \<not> IsSet ctx (p @ ownName sf) \<and> omitEmptyOf sf then Inr (VNil, False)
      else if StringSlice ctx (p @ ownName sf) = [] then Inr (VNil, True)
      else Inl (Error (SetFieldValue (Name sf) (MatrixType (Name sf)))))"
proof -
  have ns: "\<not> isStructLike (TSlice (TSlice e))" by (simp add: isStructLike_def)
  show ?thesis
  proof (cases "\<not> IsSet ctx (p @ ownName sf) \<and> omitEmptyOf sf")
    case True
    then show ?thesis using bindField_skipped [OF assms ns, of ctx p L] by simp
  next
    case False
    show ?thesis
      unfolding bindField_leaf [OF assms ns False]
      using False by (simp add: unreferenceValue.simps setFieldValue_matrix)
  qed
qed

text \<open>
  Claim C5, as amended. The generator cannot fail: for an exported field that is a sequence
  of sequences it emits a repeated-string flag like for any other sequence. The binder
  fails with the error of kind \<open>UnsupportedType\<close> that names the field when it reaches the
  field (the fields before it bind, the field is not an unset omit-empty one) and the flag
  holds at least one string; when the flag holds none, the field is accepted and stays nil.
\<close>

theorem nested_sequence_flag_and_bind:
  assumes "PkgPath sf = []" and "bindFields L ctx pre [] = Inr (vs, d)"
    and "IsSet ctx (ownName sf) \<or> \<not> omitEmptyOf sf"
  shows "genFlagsForStruct L (TStruct (pre @ (sf, TSlice (TSlice e)) # post)) p =
           genFlagsForStruct L (TStruct pre) p
           @ [\<lparr>FlagName = p @ ownName sf,
                Aliases = map (\<lambda>a. if length a > 1 then p @ a else a) (aliasesOf sf),
                Usage = Get (Tag sf) tagCLIUsage,
                Value = StringSliceValue (splitCSV (Get (Tag sf) tagCLIDefault)),
                DefaultText = Get (Tag sf) tagCLIDefault,
                Required = (\<not> omitEmptyOf sf \<and> Get (Tag sf) tagCLIDefault = [])\<rparr>]
           @ genFlagsForStruct L (TStruct post) p
         \<and> (StringSlice ctx (ownName sf) \<noteq> [] \<longrightarrow>
              Bind L ctx (Pointer (TStruct (pre @ (sf, TSlice (TSlice e)) # post)) old) =
                Returns (Some (SetFieldValue (Name sf) (MatrixType (Name sf))))
                  (Pointer (TStruct (pre @ (sf, TSlice (TSlice e)) # post)) old)
              \<and> kindOf (SetFieldValue (Name sf) (MatrixType (Name sf))) = UnsupportedType)
         \<and> (StringSlice ctx (ownName sf) = [] \<longrightarrow>
              bindFields L ctx (pre @ [(sf, TSlice (TSlice e))]) [] = Inr (vs @ [VNil], True))"
proof (intro conjI impI)
  have ns: "\<not> isStructLike (TSlice (TSlice e))" by (simp add: isStructLike_def)
  show "genFlagsForStruct L (TStruct (pre @ (sf, TSlice (TSlice e)) # post)) p =
           genFlagsForStruct L (TStruct pre) p
           @ [\<lparr>FlagName = p @ ownName sf,
                Aliases = map (\<lambda>a. if length a > 1 then p @ a else a) (aliasesOf sf),
                Usage = Get (Tag sf) tagCLIUsage,
                Value = StringSliceValue (splitCSV (Get (Tag sf) tagCLIDefault)),
                DefaultText = Get (Tag sf) tagCLIDefault,
                Required = (\<not> omitEmptyOf sf \<and> Get (Tag sf) tagCLIDefault = [])\<rparr>]
           @ genFlagsForStruct L (TStruct post) p"
    unfolding genFlagsForStruct_split genField_leaf [OF assms(1) ns]
    by (simp add: genLeaf_slice)
  show "kindOf (SetFieldValue (Name sf) (MatrixType (Name sf))) = UnsupportedType" by simp
  show "Bind L ctx (Pointer (TStruct (pre @ (sf, TSlice (TSlice e)) # post)) old) =
          Returns (Some (SetFieldValue (Name sf) (MatrixType (Name sf))))
            (Pointer (TStruct (pre @ (sf, TSlice (TSlice e)) # post)) old)"
    if "StringSlice ctx (ownName sf) \<noteq> []"
    using that assms(3)
    by (intro Bind_field_error [OF assms(2)]) (auto simp: bindField_matrix [OF assms(1)])
  show "bindFields L ctx (pre @ [(sf, TSlice (TSlice e))]) [] = Inr (vs @ [VNil], True)"
    if "StringSlice ctx (ownName sf) = []"
    using that assms(2,3)
    by (auto simp: bindFields_append bindFields_Cons [of L ctx sf] bindField_matrix [OF assms(1)])
qed

theorem nested_sequence_flag_and_bind_witness:
  "Bind exLib (commandOf [(''m'', StringSliceValue [''a,b''])])
       (Pointer (TStruct ([] @ (plainField ''M'' [], TSlice (TSlice TString)) # []))
          (VStruct [VNil])) =
     Returns (Some (SetFieldValue ''M'' (MatrixType ''M'')))
       (Pointer (TStruct ([] @ (plainField ''M'' [], TSlice (TSlice TString)) # []))
          (VStruct [VNil]))"
proof -
  let ?sf = "plainField ''M'' []"
  let ?ctx = "commandOf [(''m'', StringSliceValue [''a,b''])]"
  have 1: "PkgPath ?sf = []" by (simp add: plainField_def)
  have 2: "bindFields exLib ?ctx [] [] = Inr ([], False)" by simp
  have n: "ownName ?sf = ''m''" by (simp add: plainField_def string_defs tag_defs)
  have 3: "IsSet ?ctx (ownName ?sf) \<or> \<not> omitEmptyOf ?sf" by (simp add: n commandOf_def)
  have 4: "StringSlice ?ctx (ownName ?sf) \<noteq> []" by (simp add: n commandOf_def)
  have 5: "Name ?sf = ''M''" by (simp add: plainField_def)
  show ?thesis
    using nested_sequence_flag_and_bind [OF 1 2 3, of TString "[]" "[]" "VStruct [VNil]"] 4
    unfolding 5 by blast
qed

text \<open>
  The claim as stated fails on a struct with the one field \<^verbatim>\<open>M [][]string\<close> and a command
  that holds no value for it: the generator returns a flag, and \<^verbatim>\<open>Bind\<close> returns nil.
\<close>

theorem nested_sequence_counterexample:
  "FlagsFromStruct exLib (TStruct exMatrix) =
     [\<lparr>FlagName = ''m'', Aliases = [], Usage = [], Value = StringSliceValue [],
       DefaultText = [], Required = True\<rparr>]
   \<and> Bind exLib (commandOf []) (Pointer (TStruct exMatrix) (VStruct [VNil])) =
       Returns None (Pointer (TStruct exMatrix) (VStruct [VNil]))"
  by (simp add: FlagsFromStruct_def exMatrix_def plainField_def genLeaf_def bind_defs string_defs
      tag_defs genFields.simps)

subsection \<open>Replacing the destination\<close>

lemma bindStruct_struct:
  "unreferenceType t = TStruct fs \<Longrightarrow>
   bindStruct L ctx t p =
     (case bindFields L ctx fs p of
        Inl f \<Rightarrow> Inl f
      | Inr (vs, defined) \<Rightarrow> Inr (if defined then Some (VStruct vs) else None))"
  by (simp add: bindStruct.simps)

lemma defined_iff_assigned:
  "bindStruct L ctx t p = Inr r \<Longrightarrow> unreferenceType t = TStruct fs
     \<Longrightarrow> (r \<noteq> None) = anyAssigned ctx p fs"
  "bindFields L ctx fs p = Inr (vs, d) \<Longrightarrow> d = anyAssigned ctx p fs"
proof (induction L ctx t p and L ctx fs p arbitrary: r fs and vs d
       rule: bindStruct_bindFields.induct)
  case (1 L ctx t0 prefix)
  from "1.prems" obtain vs d where b: "bindFields L ctx fs prefix = Inr (vs, d)"
    and r: "r = (if d then Some (VStruct vs) else None)"
    by (auto simp: bindStruct_struct split: sum.splits prod.splits)
  from "1.IH" [OF "1.prems"(2) b] r show ?case by simp
next
  case (2 L ctx prefix)
  then show ?case by simp
next
  case (3 L ctx sf sft fs prefix)
  from "3.prems" obtain x dx ws e where
    x: "bindField L ctx sf sft prefix = Inr (x, dx)"
    and ws: "bindFields L ctx fs prefix = Inr (ws, e)"
    and d: "d = (dx \<or> e)"
    unfolding bindFields_Cons_Inr by blast
  let ?pfx = "if \<not> Anonymous sf then prefix @ Get (Tag sf) tagCLIPrefix else prefix"
  show ?case
  proof (cases "PkgPath sf = []")
    case False
    with x have "dx = False" by (simp add: bindField_unexported)
    moreover from False have "\<not> assigned ctx prefix sf sft" by (simp add: assigned.simps)
    moreover from "3.IH"(1) [OF False ws] have "e = anyAssigned ctx prefix fs" .
    ultimately show ?thesis by (simp add: d)
  next
    case exported: True
    show ?thesis
    proof (cases "isStructLike sft")
      case True
      then obtain sfs where sfs: "unreferenceType sft = TStruct sfs"
        using isStructLike_cases by blast
      from x exported True have ntag: "\<not> (Anonymous sf \<and> Get (Tag sf) tagCLI \<noteq> [])"
        by (auto simp: bindField_struct split: if_splits)
      from x exported True ntag obtain b where b: "bindStruct L ctx sft ?pfx = Inr b"
        by (auto simp: bindField_struct split: sum.splits fault.splits)
      have dx: "dx = (b \<noteq> None)"
        using x exported True ntag b
        by (auto simp: bindField_struct split: option.splits if_splits)
      have rec: "(b \<noteq> None) = anyAssigned ctx ?pfx sfs"
        using "3.IH"(2) [OF _ refl True ntag b sfs] exported by simp
      have e: "e = anyAssigned ctx prefix fs"
      proof (cases b)
        case None
        from "3.IH"(3) [OF _ refl True ntag b None ws] exported show ?thesis by simp
      next
        case (Some s)
        from x exported True ntag b Some have "Kind sft \<noteq> KPointer"
          by (auto simp: bindField_struct split: if_splits)
        from "3.IH"(4) [OF _ refl True ntag b Some this ws] exported show ?thesis by simp
      qed
      have "assigned ctx prefix sf sft = anyAssigned ctx ?pfx sfs"
        using exported True sfs by (simp add: assigned.simps)
      with dx rec e d show ?thesis by simp
    next
      case leaf: False
      show ?thesis
      proof (cases "\<not> IsSet ctx (prefix @ ownName sf) \<and> omitEmptyOf sf")
        case True
        with x exported leaf have "dx = False" by (simp add: bindField_skipped)
        moreover from True exported leaf have "\<not> assigned ctx prefix sf sft"
          by (simp add: assigned.simps)
        moreover from "3.IH"(5) [OF _ refl leaf True ws] exported
        have "e = anyAssigned ctx prefix fs" by simp
        ultimately show ?thesis by (simp add: d)
      next
        case False
        from x obtain b where
          b: "setFieldValue L ctx (prefix @ ownName sf) sf sft
                (fst (unreferenceValue sft (zeroValue sft)))
                (snd (unreferenceValue sft (zeroValue sft))) = Inr b"
          and "dx = True"
          unfolding bindField_leaf [OF exported leaf False]
          by (auto split: sum.splits fault.splits)
        moreover from False exported leaf have "assigned ctx prefix sf sft"
          by (auto simp: assigned.simps)
        ultimately show ?thesis by (simp add: d)
      qed
    qed
  qed
qed

lemma bindField_not_assigned:
  assumes "bindField L ctx sf sft p = Inr (x, dx)" and "\<not> assigned ctx p sf sft"
  shows "x = zeroValue sft \<and> \<not> dx"
proof (cases "PkgPath sf = []")
  case False
  with assms(1) show ?thesis by (simp add: bindField_unexported)
next
  case exported: True
  let ?pfx = "if \<not> Anonymous sf then p @ Get (Tag sf) tagCLIPrefix else p"
  show ?thesis
  proof (cases "isStructLike sft")
    case True
    then obtain sfs where sfs: "unreferenceType sft = TStruct sfs"
      using isStructLike_cases by blast
    from assms(1) exported True have ntag: "\<not> (Anonymous sf \<and> Get (Tag sf) tagCLI \<noteq> [])"
      by (auto simp: bindField_struct split: if_splits)
    from assms(1) exported True ntag obtain b where b: "bindStruct L ctx sft ?pfx = Inr b"
      by (auto simp: bindField_struct split: sum.splits fault.splits)
    from assms(2) exported True sfs have "\<not> anyAssigned ctx ?pfx sfs"
      by (simp add: assigned.simps)
    with defined_iff_assigned(1) [OF b sfs] have "b = None" by simp
    with assms(1) exported True ntag b show ?thesis by (auto simp: bindField_struct)
  next
    case False
    with assms(2) exported have "\<not> IsSet ctx (p @ ownName sf)" and "omitEmptyOf sf"
      by (auto simp: assigned.simps)
    with assms(1) exported False show ?thesis by (simp add: bindField_skipped)
  qed
qed

lemma bindFields_not_assigned:
  "bindFields L ctx fs p = Inr (vs, d) \<Longrightarrow> i < length fs
     \<Longrightarrow> \<not> assigned ctx p (fst (fs ! i)) (snd (fs ! i))
     \<Longrightarrow> vs ! i = zeroValue (snd (fs ! i))"
proof (induction fs arbitrary: vs d i)
  case Nil
  then show ?case by simp
next
  case (Cons f fs)
  obtain sf ft where f: "f = (sf, ft)" by (cases f)
  from Cons.prems(1) obtain x dx ws e where
    x: "bindField L ctx sf ft p = Inr (x, dx)" and ws: "bindFields L ctx fs p = Inr (ws, e)"
    and vs: "vs = x # ws"
    unfolding f bindFields_Cons_Inr by blast
  show ?case
  proof (cases i)
    case 0
    with Cons.prems(3) bindField_not_assigned [OF x] show ?thesis by (simp add: f vs)
  next
    case (Suc j)
    with Cons.prems(2,3) Cons.IH [OF ws, of j] show ?thesis by (simp add: vs)
  qed
qed

text \<open>
  A successful \<^verbatim>\<open>Bind\<close> on anything but a pointer to a struct changes nothing: a pointer
  to a pointer to a struct panics when a field is assigned.
\<close>

lemma Bind_success_other:
  assumes "Bind L ctx d = Returns None d'"
  shows "(\<exists>fs old. d = Pointer (TStruct fs) old) \<or> d' = d"
proof (cases d)
  case (Pointer t old)
  show ?thesis
  proof (cases "\<exists>fs. t = TStruct fs")
    case True
    with Pointer show ?thesis by blast
  next
    case False
    have "d' = d"
    proof (cases "bindStruct L ctx (unreferenceType (TPointer t)) []")
      case (Inl f)
      with assms Pointer show ?thesis by (cases f) (simp_all add: Bind_def)
    next
      case (Inr r)
      show ?thesis
      proof (cases r)
        case None
        with assms Pointer Inr show ?thesis by (simp add: Bind_def)
      next
        case (Some v)
        with assms Pointer Inr have k: "Kind t \<noteq> KPointer"
          by (auto simp: Bind_def split: if_splits)
        from Inr Some have "\<exists>fs. unreferenceType t = TStruct fs"
          by (cases "unreferenceType t") (auto simp: bindStruct.simps split: sum.splits prod.splits)
        with k False show ?thesis by (cases t) auto
      qed
    qed
    then show ?thesis ..
  qed
qed (use assms in \<open>simp_all add: Bind_def\<close>)

text \<open>
  Claim C9. When \<^verbatim>\<open>Bind\<close> succeeds on a pointer to a struct: if at least one field was
  assigned, the destination is the new value the call has built, the same whatever the
  destination held before, and in it every field that was not assigned (an unexported
  field, an unset omit-empty one, a nested struct with no assigned field) holds its zero
  value; if no field was assigned, the destination is as it was.
\<close>

theorem Bind_replaces_or_keeps:
  assumes "Bind L ctx (Pointer (TStruct fs) old) = Returns None d'"
  shows "(anyAssigned ctx [] fs \<longrightarrow>
            (\<exists>vs. d' = Pointer (TStruct fs) (VStruct vs) \<and> length vs = length fs
               \<and> (\<forall>i<length fs. \<not> assigned ctx [] (fst (fs ! i)) (snd (fs ! i)) \<longrightarrow>
                      vs ! i = zeroValue (snd (fs ! i)))
               \<and> (\<forall>old'. Bind L ctx (Pointer (TStruct fs) old') = Returns None d')))
         \<and> (\<not> anyAssigned ctx [] fs \<longrightarrow> d' = Pointer (TStruct fs) old)"
proof -
  from assms obtain vs d where b: "bindFields L ctx fs [] = Inr (vs, d)"
    and d': "d' = Pointer (TStruct fs) (if d then VStruct vs else old)"
    by (auto simp: Bind_struct split: sum.splits fault.splits prod.splits)
  have d: "d = anyAssigned ctx [] fs" using b by (rule defined_iff_assigned(2))
  show ?thesis
  proof (intro conjI impI)
    assume a: "anyAssigned ctx [] fs"
    have "d' = Pointer (TStruct fs) (VStruct vs)" using a d d' by simp
    moreover have "length vs = length fs" using b by (rule bindFields_length)
    moreover have "\<forall>i<length fs. \<not> assigned ctx [] (fst (fs ! i)) (snd (fs ! i)) \<longrightarrow>
                      vs ! i = zeroValue (snd (fs ! i))"
      using bindFields_not_assigned [OF b] by blast
    moreover have "\<forall>old'. Bind L ctx (Pointer (TStruct fs) old') = Returns None d'"
      using a d d' by (simp add: Bind_struct b)
    ultimately show "\<exists>vs. d' = Pointer (TStruct fs) (VStruct vs) \<and> length vs = length fs
               \<and> (\<forall>i<length fs. \<not> assigned ctx [] (fst (fs ! i)) (snd (fs ! i)) \<longrightarrow>
                      vs ! i = zeroValue (snd (fs ! i)))
               \<and> (\<forall>old'. Bind L ctx (Pointer (TStruct fs) old') = Returns None d')"
      by blast
  next
    assume "\<not> anyAssigned ctx [] fs"
    with d d' show "d' = Pointer (TStruct fs) old" by simp
  qed
qed

theorem Bind_replaces_or_keeps_witness:
  "anyAssigned (commandOf [(''count'', Int64Value 7)]) [] exOmit
   \<and> \<not> assigned (commandOf [(''count'', Int64Value 7)]) [] (fst (exOmit ! 0)) (snd (exOmit ! 0))
   \<and> (\<forall>old'. Bind exLib (commandOf [(''count'', Int64Value 7)]) (Pointer (TStruct exOmit) old') =
          Returns None (Pointer (TStruct exOmit) (VStruct [VString [], VInt 7])))"
proof -
  let ?ctx = "commandOf [(''count'', Int64Value 7)]"
  have 1: "Bind exLib ?ctx (Pointer (TStruct exOmit) (VStruct [VString ''old'', VInt 1])) =
             Returns None (Pointer (TStruct exOmit) (VStruct [VString [], VInt 7]))"
    by (simp add: exOmit_def plainField_def bind_defs string_defs tag_defs)
  have 2: "\<not> assigned ?ctx [] (fst (exOmit ! 0)) (snd (exOmit ! 0))"
    by (simp add: exOmit_def plainField_def assigned.simps isStructLike_def commandOf_def
        string_defs tag_defs)
  have 3: "anyAssigned ?ctx [] exOmit"
    by (simp add: exOmit_def plainField_def assigned.simps isStructLike_def commandOf_def
        string_defs tag_defs)
  show ?thesis
    using Bind_replaces_or_keeps [OF 1] 2 3 by blast
qed

subsection \<open>Values that fail to parse\<close>

lemma sliceElem_fails:
  "parseFails L sf e s \<Longrightarrow> \<exists>pe. sliceElem L sf e s = Inl (Error pe) \<and> kindOf pe = ParseError"
  by (cases e) (auto simp: parseFails_def sliceElem_def split: parsed.splits if_splits)

lemma sliceElem_ok:
  "parseFails L sf e s' \<Longrightarrow> \<not> parseFails L sf e s \<Longrightarrow> \<exists>r. sliceElem L sf e s = Inr r"
  by (cases e) (auto simp: parseFails_def sliceElem_def split: parsed.splits if_splits)

lemma sliceLoop_fails:
  "list_ex (parseFails L sf e) raw \<Longrightarrow>
     \<exists>pe. sliceLoop L sf e raw = Inl (Error pe) \<and> kindOf pe = ParseError"
proof (induction raw)
  case Nil
  then show ?case by simp
next
  case (Cons s raw)
  show ?case
  proof (cases "parseFails L sf e s")
    case True
    from sliceElem_fails [OF True] show ?thesis by auto
  next
    case False
    with Cons.prems obtain s' where "parseFails L sf e s'" by (auto simp: list_ex_iff)
    from sliceElem_ok [OF this False] obtain r where r: "sliceElem L sf e s = Inr r" by blast
    from False Cons.prems have "list_ex (parseFails L sf e) raw" by simp
    from Cons.IH [OF this] r show ?thesis by auto
  qed
qed

lemma parseFails_not_slice: "parseFails L sf e s \<Longrightarrow> Kind e \<noteq> KSlice \<and> Kind e \<noteq> KBool \<and> Kind e \<noteq> KString"
  by (cases e) (auto simp: parseFails_def split: if_splits)

lemma setFieldValue_fails:
  assumes "semanticFailure L ctx name sf sft"
  shows "\<exists>pe. setFieldValue L ctx name sf sft ft field = Inl (Error pe) \<and> kindOf pe = ParseError"
proof (cases "\<exists>e. sft = TSlice e")
  case True
  then obtain e where e: "sft = TSlice e" by blast
  with assms have ex: "list_ex (parseFails L sf e) (StringSlice ctx name)"
    by (simp add: semanticFailure_def)
  then have ne: "StringSlice ctx name \<noteq> []" by auto
  from sliceLoop_fails [OF ex] obtain pe where
    "sliceLoop L sf e (StringSlice ctx name) = Inl (Error pe)" and "kindOf pe = ParseError"
    by blast
  then show ?thesis using ne
    by (simp add: e setFieldValue_def setSliceField_def)
next
  case False
  with assms have u: "unreferenceType sft \<in> {TDuration, TTime, TUUID}"
    and pf: "parseFails L sf (unreferenceType sft) (String ctx name)"
    by (auto simp: semanticFailure_def split: gtype.splits)
  from u pf show ?thesis
    by (auto simp: setFieldValue_def parseFails_def Let_def)
qed

lemma semanticFailure_not_structLike: "semanticFailure L ctx name sf sft \<Longrightarrow> \<not> isStructLike sft"
  by (cases sft) (auto simp: semanticFailure_def isStructLike_def Let_def)

text \<open>
  The same at any depth: the loop of a nested struct, run with its prefix \<open>p\<close>, stops with
  the error that names the field, and the loop of the enclosing struct wraps that error,
  which keeps its kind.
\<close>

lemma bindField_parse_error:
  assumes "PkgPath sf = []" and "IsSet ctx (p @ ownName sf) \<or> \<not> omitEmptyOf sf"
    and "semanticFailure L ctx (p @ ownName sf) sf sft"
  shows "\<exists>pe. bindField L ctx sf sft p = Inl (Error (SetFieldValue (Name sf) pe))
              \<and> kindOf pe = ParseError"
proof -
  have leaf: "\<not> isStructLike sft" using assms(3) by (rule semanticFailure_not_structLike)
  have reached: "\<not> (\<not> IsSet ctx (p @ ownName sf) \<and> omitEmptyOf sf)" using assms(2) by simp
  from setFieldValue_fails [OF assms(3)] obtain pe where
    pe: "setFieldValue L ctx (p @ ownName sf) sf sft
           (fst (unreferenceValue sft (zeroValue sft)))
           (snd (unreferenceValue sft (zeroValue sft))) = Inl (Error pe)"
    and k: "kindOf pe = ParseError"
    by blast
  have "bindField L ctx sf sft p = Inl (Error (SetFieldValue (Name sf) pe))"
    unfolding bindField_leaf [OF assms(1) leaf reached] using pe by simp
  with k show ?thesis by blast
qed

lemma bindStruct_parse_error:
  assumes "unreferenceType t = TStruct (pre @ (sf, sft) # post)"
    and "bindFields L ctx pre p = Inr (vs, d)"
    and "PkgPath sf = []" and "IsSet ctx (p @ ownName sf) \<or> \<not> omitEmptyOf sf"
    and "semanticFailure L ctx (p @ ownName sf) sf sft"
  shows "\<exists>pe. bindStruct L ctx t p = Inl (Error (SetFieldValue (Name sf) pe))
              \<and> kindOf pe = ParseError"
proof -
  from bindField_parse_error [OF assms(3-5)] obtain pe where
    pe: "bindField L ctx sf sft p = Inl (Error (SetFieldValue (Name sf) pe))"
    and k: "kindOf pe = ParseError"
    by blast
  have "bindStruct L ctx t p = Inl (Error (SetFieldValue (Name sf) pe))"
    unfolding bindStruct_struct [OF assms(1)] bindFields_append bindFields_Cons [of L ctx sf sft]
    using assms(2) pe by simp
  with k show ?thesis by blast
qed

lemma nested_error_wrapped:
  assumes "PkgPath sf = []" and "isStructLike sft"
    and "\<not> (Anonymous sf \<and> Get (Tag sf) tagCLI \<noteq> [])"
    and "bindStruct L ctx sft (if \<not> Anonymous sf then p @ Get (Tag sf) tagCLIPrefix else p) =
           Inl (Error e)"
  shows "bindField L ctx sf sft p = Inl (Error (BindSubstruct (Name sf) e))
         \<and> kindOf (BindSubstruct (Name sf) e) = kindOf e"
  using assms by (simp add: bindField_struct)

lemma Bind_error_keeps: "Bind L ctx dst = Returns (Some e) dst' \<Longrightarrow> dst' = dst"
  by (auto simp: Bind_def split: dest.splits sum.splits fault.splits option.splits if_splits)

text \<open>
  Claim C4, as amended. When the fields before it bind and the binder reaches an exported
  field whose flag fails semantic parsing (a duration, a timestamp, an identifier, or an
  element of a sequence of integers, floats, durations, timestamps or identifiers),
  \<^verbatim>\<open>Bind\<close> returns an error of kind \<open>ParseError\<close> that carries the name of that field, and
  the destination is as it was before the call: what was assigned before the failure went
  to the new value, which is dropped. By \<open>Bind_error_keeps\<close> no error return of \<^verbatim>\<open>Bind\<close>
  changes the destination.
\<close>

theorem parse_error_names_field_and_keeps_destination:
  assumes "PkgPath sf = []" and "bindFields L ctx pre [] = Inr (vs, d)"
    and "IsSet ctx (ownName sf) \<or> \<not> omitEmptyOf sf"
    and "semanticFailure L ctx (ownName sf) sf sft"
  shows "\<exists>pe. Bind L ctx (Pointer (TStruct (pre @ (sf, sft) # post)) old) =
                Returns (Some (SetFieldValue (Name sf) pe))
                  (Pointer (TStruct (pre @ (sf, sft) # post)) old)
              \<and> kindOf (SetFieldValue (Name sf) pe) = ParseError"
proof -
  from bindField_parse_error [of sf ctx "[]" L sft] assms(1,3,4) obtain pe where
    "bindField L ctx sf sft [] = Inl (Error (SetFieldValue (Name sf) pe))"
    and "kindOf pe = ParseError"
    by auto
  with Bind_field_error [OF assms(2)] show ?thesis by auto
qed

theorem parse_error_names_field_and_keeps_destination_witness:
  "\<exists>pe. Bind exLib (commandOf [(''name'', StringValue ''new''), (''delay'', StringValue ''soon'')])
           (Pointer (TStruct ([(plainField ''Name'' [], TString)] @ (plainField ''Delay'' [], TDuration) # []))
              (VStruct [VString ''old'', VDuration 5])) =
         Returns (Some (SetFieldValue ''Delay'' pe))
           (Pointer (TStruct ([(plainField ''Name'' [], TString)] @ (plainField ''Delay'' [], TDuration) # []))
              (VStruct [VString ''old'', VDuration 5]))
       \<and> kindOf (SetFieldValue ''Delay'' pe) = ParseError"
proof -
  let ?ctx = "commandOf [(''name'', StringValue ''new''), (''delay'', StringValue ''soon'')]"
  let ?sf = "plainField ''Delay'' []"
  have n: "ownName ?sf = ''delay''" by (simp add: plainField_def string_defs tag_defs)
  have 1: "PkgPath ?sf = []" by (simp add: plainField_def)
  have 2: "bindFields exLib ?ctx [(plainField ''Name'' [], TString)] [] = Inr ([VString ''new''], True)"
    by (simp add: plainField_def bind_defs string_defs tag_defs)
  have 3: "IsSet ?ctx (ownName ?sf) \<or> \<not> omitEmptyOf ?sf" by (simp add: n commandOf_def)
  have 4: "semanticFailure exLib ?ctx (ownName ?sf) ?sf TDuration"
    by (simp add: n semanticFailure_def parseFails_def commandOf_def exLib_def)
  have 5: "Name ?sf = ''Delay''" by (simp add: plainField_def)
  show ?thesis
    using parse_error_names_field_and_keeps_destination [OF 1 2 3 4, of "[]" "VStruct [VString ''old'', VDuration 5]"]
    unfolding 5 .
qed

text \<open>
  The claim as stated fails on \<^verbatim>\<open>struct { Name string; Delay time.Duration }\<close> with the
  flags \<^verbatim>\<open>name=new\<close> and \<^verbatim>\<open>delay=soon\<close>: the loop assigns \<^verbatim>\<open>new\<close> to the first field of the
  new value, the second field fails, and the destination still holds \<^verbatim>\<open>old\<close>.
\<close>

theorem partial_assignment_counterexample:
  "bindFields exLib (commandOf [(''name'', StringValue ''new''), (''delay'', StringValue ''soon'')])
       [(plainField ''Name'' [], TString)] [] = Inr ([VString ''new''], True)
   \<and> Bind exLib (commandOf [(''name'', StringValue ''new''), (''delay'', StringValue ''soon'')])
         (Pointer (TStruct exDelay) (VStruct [VString ''old'', VDuration 5])) =
       Returns (Some (SetFieldValue ''Delay'' ParseDurationErr))
         (Pointer (TStruct exDelay) (VStruct [VString ''old'', VDuration 5]))"
  by (simp add: exDelay_def plainField_def bind_defs string_defs tag_defs exLib_def)

subsection \<open>Round trips\<close>

lemma FlagsFromStruct_single:
  "PkgPath sf = [] \<Longrightarrow> \<not> isStructLike t \<Longrightarrow> FlagsFromStruct L (TStruct [(sf, t)]) = genLeaf L sf t []"
  by (simp add: FlagsFromStruct_def)

lemma scalar_not_structLike: "scalar t \<Longrightarrow> \<not> isStructLike t"
  by (cases t) (simp_all add: isStructLike_def)

lemma scalar_fieldFlag:
  assumes "PkgPath sf = []" and "scalar t"
  shows "\<exists>fl. fieldFlag L sf t = Some fl \<and> FlagName fl = ownName sf
     \<and> (case t of
          TBool \<Rightarrow> (\<exists>d. Value fl = BoolValue d)
        | TInt k \<Rightarrow> (\<exists>d. Value fl = Int64Value d)
        | TUint k \<Rightarrow> (\<exists>d. Value fl = Uint64Value d)
        | TFloat32 \<Rightarrow> (\<exists>d. Value fl = Float64Value d)
        | TFloat64 \<Rightarrow> (\<exists>d. Value fl = Float64Value d)
        | _ \<Rightarrow> (\<exists>d. Value fl = StringValue d))"
  using assms(2)
  unfolding fieldFlag_def FlagsFromStruct_single [OF assms(1) scalar_not_structLike [OF assms(2)]]
  by (cases t) (simp_all add: genLeaf_def Let_def)

lemma bindField_scalar:
  assumes "scalar t" and "expected L ctx (sf, t) = Some x"
  shows "bindField L ctx sf t [] = Inr (x, PkgPath sf = [])"
proof (cases "PkgPath sf = []")
  case False
  with assms(2) show ?thesis by (simp add: expected_def bindField_unexported)
next
  case True
  from scalar_fieldFlag [OF True assms(1), of L] obtain fl where
    fl: "fieldFlag L sf t = Some fl" and n: "FlagName fl = ownName sf"
    and v: "case t of
          TBool \<Rightarrow> (\<exists>d. Value fl = BoolValue d)
        | TInt k \<Rightarrow> (\<exists>d. Value fl = Int64Value d)
        | TUint k \<Rightarrow> (\<exists>d. Value fl = Uint64Value d)
        | TFloat32 \<Rightarrow> (\<exists>d. Value fl = Float64Value d)
        | TFloat64 \<Rightarrow> (\<exists>d. Value fl = Float64Value d)
        | _ \<Rightarrow> (\<exists>d. Value fl = StringValue d)"
    by blast
  from assms(2) True fl n have set: "IsSet ctx (ownName sf)"
    and fit: "fits L t (readFlag ctx fl)"
    and x: "asField L sf t (readFlag ctx fl) = Some x"
    by (auto simp: expected_def split: if_splits)
  have reached: "\<not> (\<not> IsSet ctx ([] @ ownName sf) \<and> omitEmptyOf sf)" using set by simp
  have u: "unreferenceValue t (zeroValue t) = (t, zeroValue t)"
    using assms(1) by (cases t) (simp_all add: unreferenceValue.simps)
  have "setFieldValue L ctx (ownName sf) sf t t (zeroValue t) = Inr x"
    using assms(1) v x fit n
    by (cases t)
      (auto simp: setFieldValue_def asField_def readFlag_def fits_def SetValue_def
        castAndSetInt_def castAndSetUint_def SetInt_def SetUint_def SetFloat_def
        signed_take_bit_int_eq_self take_bit_nat_eq_self
        split: flagvalue.splits if_splits)
  moreover have "Kind t \<noteq> KPointer" using assms(1) by (cases t) simp_all
  ultimately show ?thesis
    unfolding bindField_leaf [OF True scalar_not_structLike [OF assms(1)] reached] u
    using True by simp
qed

lemma bindFields_scalar:
  assumes "\<forall>f \<in> set fs. scalar (snd f)" and "\<forall>f \<in> set fs. expected L ctx f \<noteq> None"
  shows "bindFields L ctx fs [] =
           Inr (map (\<lambda>f. the (expected L ctx f)) fs, \<exists>f \<in> set fs. PkgPath (fst f) = [])"
  using assms
proof (induction fs)
  case Nil
  show ?case by simp
next
  case (Cons f fs)
  obtain sf t where f: "f = (sf, t)" by (cases f)
  from Cons.prems f obtain x where x: "expected L ctx (sf, t) = Some x" by auto
  from Cons.prems f have sc: "scalar t" by simp
  have rest: "bindFields L ctx fs [] =
           Inr (map (\<lambda>f. the (expected L ctx f)) fs, \<exists>f \<in> set fs. PkgPath (fst f) = [])"
    using Cons.IH Cons.prems by simp
  show ?case
    unfolding f bindFields_Cons [of L ctx sf t] bindField_scalar [OF sc x] rest
    by (simp add: x)
qed

text \<open>
  Claim C1, as amended. For every struct type whose fields are all scalar: when the command
  holds, for the flag generated for each exported field, a value that is set, that denotes
  a value of the field's type and that, if a number, fits the field's type, then \<^verbatim>\<open>Bind\<close> on
  a fresh destination succeeds and every exported field equals the value supplied for its
  flag (an unexported field keeps its zero value).
\<close>

theorem roundtrip_when_values_fit:
  assumes "\<forall>f \<in> set fs. scalar (snd f)" and "\<forall>f \<in> set fs. expected L ctx f \<noteq> None"
  shows "Bind L ctx (Pointer (TStruct fs) (zeroValue (TStruct fs))) =
           Returns None (Pointer (TStruct fs) (VStruct (map (\<lambda>f. the (expected L ctx f)) fs)))"
proof (cases "\<exists>f \<in> set fs. PkgPath (fst f) = []")
  case True
  then show ?thesis
    unfolding Bind_struct bindFields_scalar [OF assms] by simp
next
  case False
  then have "map (\<lambda>f. the (expected L ctx f)) fs = map (\<lambda>f. zeroValue (snd f)) fs"
    by (auto simp: expected_def split: prod.splits)
  with False show ?thesis
    unfolding Bind_struct bindFields_scalar [OF assms] by simp
qed

text \<open>
  The claim as stated fails on \<^verbatim>\<open>struct { N int8 }\<close>: the generated flag is a 64-bit
  integer flag, and binding the supplied value 300 leaves 44 in the field.
\<close>

theorem roundtrip_counterexample:
  "FlagsFromStruct exLib (TStruct exSmall) =
     [\<lparr>FlagName = ''n'', Aliases = [], Usage = [], Value = Int64Value 0, DefaultText = [],
       Required = True\<rparr>]
   \<and> IsSet (commandOf [(''n'', Int64Value 300)]) ''n''
   \<and> Int64 (commandOf [(''n'', Int64Value 300)]) ''n'' = 300
   \<and> Bind exLib (commandOf [(''n'', Int64Value 300)])
         (Pointer (TStruct exSmall) (zeroValue (TStruct exSmall))) =
       Returns None (Pointer (TStruct exSmall) (VStruct [VInt 44]))"
  by (simp add: FlagsFromStruct_def exSmall_def plainField_def genLeaf_def bind_defs string_defs
      tag_defs parse_defs genFields.simps)

lemmas expected_defs = expected_def fieldFlag_def FlagsFromStruct_def genFields.simps genLeaf_def
  readFlag_def asField_def fits_def plainField_def commandOf_sel isStructLike_def intBits_def
  isAnyInt_def isAnyUint_def
  Let_def

theorem roundtrip_when_values_fit_witness:
  "Bind exLib exAllCommand (Pointer (TStruct exAll) (zeroValue (TStruct exAll))) =
     Returns None (Pointer (TStruct exAll)
       (VStruct [VString ''guest'', VInt 7, VDuration 1000000000, VBool True]))"
proof -
  have 1: "\<forall>f \<in> set exAll. scalar (snd f)" by (simp add: exAll_def)
  have e1: "expected exLib exAllCommand (plainField ''Name'' [(''cli'', ''name,n'')], TString) =
              Some (VString ''guest'')"
    by (simp add: exAllCommand_def expected_defs string_defs tag_defs)
  have e2: "expected exLib exAllCommand (plainField ''Count'' [(''cli'', ''count'')], TInt IInt) =
              Some (VInt 7)"
    by (simp add: exAllCommand_def expected_defs string_defs tag_defs parse_defs)
  have e3: "expected exLib exAllCommand (plainField ''Delay'' [], TDuration) =
              Some (VDuration 1000000000)"
    by (simp add: exAllCommand_def expected_defs string_defs tag_defs exLib_def)
  have e4: "expected exLib exAllCommand (plainField ''Debug'' [(''cli'', ''debug,omitempty'')], TBool) =
              Some (VBool True)"
    by (simp add: exAllCommand_def expected_defs string_defs tag_defs parse_defs)
  have 2: "\<forall>f \<in> set exAll. expected exLib exAllCommand f \<noteq> None"
    by (simp add: exAll_def e1 e2 e3 e4)
  have 3: "map (\<lambda>f. the (expected exLib exAllCommand f)) exAll =
             [VString ''guest'', VInt 7, VDuration 1000000000, VBool True]"
    by (simp add: exAll_def e1 e2 e3 e4)
  show ?thesis using roundtrip_when_values_fit [OF 1 2] unfolding 3 .
qed

subsection \<open>Named nested structs and sequence elements\<close>

text \<open>
  The generator emits nothing for a named struct field without \<^verbatim>\<open>cliPrefix\<close>; the binder
  runs the loop of the nested struct with the prefix of the parent.
\<close>

lemma genField_named_struct_without_prefix:
  assumes "isStructLike ft" and "\<not> Anonymous sf" and "Get (Tag sf) tagCLIPrefix = []"
  shows "genField L sf ft p = []"
proof -
  from assms(1) obtain fs where "unreferenceType ft = TStruct fs"
    using isStructLike_cases by blast
  moreover from assms(1) have "ft \<noteq> TDuration" "ft \<noteq> TTime" "ft \<noteq> TUUID"
    by (auto simp: isStructLike_def)
  ultimately show ?thesis
    using assms(2,3) by (simp add: genField_def genFields.simps genLeaf_def Let_def)
qed

lemma bindField_named_struct_without_prefix:
  assumes "PkgPath sf = []" and "isStructLike sft" and "\<not> Anonymous sf"
    and "Get (Tag sf) tagCLIPrefix = []" and "bindStruct L ctx sft p = Inr (Some subv)"
    and "Kind sft \<noteq> KPointer"
  shows "bindField L ctx sf sft p = Inr (subv, True)"
  using assms by (simp add: bindField_struct)

text \<open>
  Claim C3. A named nested struct without \<^verbatim>\<open>cliPrefix\<close> is to be left out by both
  operations. The generator does leave it out; the binder descends into it all the same,
  with the prefix of the parent, and assigns it. On
  \<^verbatim>\<open>struct { X int `cli:"x"`; Sub struct { X int `cli:"x"` } }\<close> the generator emits the
  one flag \<^verbatim>\<open>x\<close>, and \<^verbatim>\<open>Bind\<close> with \<^verbatim>\<open>x=7\<close> sets \<^verbatim>\<open>Sub.X\<close> to 7 as well.
\<close>

theorem named_struct_without_prefix_is_bound:
  "FlagsFromStruct exLib (TStruct exNested) =
     [\<lparr>FlagName = ''x'', Aliases = [], Usage = [], Value = Int64Value 0, DefaultText = [],
       Required = True\<rparr>]
   \<and> Bind exLib (commandOf [(''x'', Int64Value 7)])
         (Pointer (TStruct exNested) (VStruct [VInt 0, VStruct [VInt 0]])) =
       Returns None (Pointer (TStruct exNested) (VStruct [VInt 7, VStruct [VInt 7]]))"
  by (simp add: FlagsFromStruct_def exNested_def plainField_def genLeaf_def genFields.simps
      Bind_struct bindFields.simps(2) bindStruct.simps setFieldValue_def castAndSetInt_def
      SetInt_def intBits_def isStructLike_def unreferenceValue.simps commandOf_sel Let_def
      isAnyInt_def isAnyUint_def string_defs tag_defs parse_defs)

text \<open>
  What the loop of \<^verbatim>\<open>setSliceField\<close> keeps when it succeeds: every element, unless the
  elements are durations, timestamps or identifiers, of which it drops the empty ones.
\<close>

lemma sliceElem_appends:
  "t \<noteq> TDuration \<Longrightarrow> t \<noteq> TTime \<Longrightarrow> t \<noteq> TUUID \<Longrightarrow> sliceElem L sf t s = Inr r \<Longrightarrow> r \<noteq> None"
  by (auto simp: sliceElem_def split: if_splits parsed.splits)

lemma sliceElem_drops:
  "t = TDuration \<or> t = TTime \<or> t = TUUID \<Longrightarrow> sliceElem L sf t s = Inr r \<Longrightarrow> (r = None) = (s = [])"
  by (auto simp: sliceElem_def split: if_splits option.splits)

lemma sliceLoop_keeps_all:
  "t \<noteq> TDuration \<Longrightarrow> t \<noteq> TTime \<Longrightarrow> t \<noteq> TUUID \<Longrightarrow> sliceLoop L sf t raw = Inr out
     \<Longrightarrow> length out = length raw"
proof (induction raw arbitrary: out)
  case Nil
  then show ?case by simp
next
  case (Cons s raw)
  from Cons.prems(4) obtain r rest where r: "sliceElem L sf t s = Inr r"
    and rest: "sliceLoop L sf t raw = Inr rest"
    and out: "out = (case r of None \<Rightarrow> rest | Some v \<Rightarrow> v # rest)"
    by (auto split: sum.splits)
  from sliceElem_appends [OF Cons.prems(1-3) r] obtain v where "r = Some v" by auto
  with out Cons.IH [OF Cons.prems(1-3) rest] show ?case by simp
qed

lemma sliceLoop_drops_empty:
  "t = TDuration \<or> t = TTime \<or> t = TUUID \<Longrightarrow> sliceLoop L sf t raw = Inr out
     \<Longrightarrow> length out = length (filter (\<lambda>s. s \<noteq> []) raw)"
proof (induction raw arbitrary: out)
  case Nil
  then show ?case by simp
next
  case (Cons s raw)
  from Cons.prems(2) obtain r rest where r: "sliceElem L sf t s = Inr r"
    and rest: "sliceLoop L sf t raw = Inr rest"
    and out: "out = (case r of None \<Rightarrow> rest | Some v \<Rightarrow> v # rest)"
    by (auto split: sum.splits)
  from sliceElem_drops [OF Cons.prems(1) r] out Cons.IH [OF Cons.prems(1) rest]
  show ?case by (cases r) auto
qed

text \<open>
  Claim C7. Every element of a sequence flag is to be parsed by the rule of its scalar
  type and appended in order, and an element that fails to parse is to fail the call. The
  code drops an empty element of a sequence of durations (and of timestamps and
  identifiers) instead of appending the zero value, and it takes a boolean element that
  does not parse for \<^verbatim>\<open>false\<close>: \<^verbatim>\<open>["1s", "", "2s"]\<close> binds to two durations, and
  \<^verbatim>\<open>["maybe"]\<close> to \<^verbatim>\<open>[false]\<close>, with no error.
\<close>

theorem sequence_elements_dropped_or_unchecked:
  "Bind exLib (commandOf [(''waits'', StringSliceValue [''1s'', [], ''2s'']),
                          (''marks'', StringSliceValue [''maybe''])])
       (Pointer (TStruct exDurations) (VStruct [VNil, VNil])) =
     Returns None (Pointer (TStruct exDurations)
       (VStruct [VSlice [VDuration 1000000000, VDuration 2000000000], VSlice [VBool False]]))"
  by (simp add: exDurations_def plainField_def Bind_struct bindFields.simps(2) setFieldValue_def
      setSliceField_def sliceElem_def isStructLike_def unreferenceValue.simps commandOf_sel
      Let_def exLib_def string_defs tag_defs parse_defs)

end
